theory Spec2Isabelle
  imports Complex_Main
begin

section \<open>Data model\<close>

text \<open>
  Python exceptions are values. The string carried by an error is its message.
\<close>

datatype error =
    ValueError string
  | TypeError string
  | RuntimeError string
  | KeyError string
  | IndexError
  | ZeroDivisionError
  | AttributeError string

text \<open>
  A float of a pandas column. Arithmetic is that of the reals on finite values; the three
  special values are the ones numpy produces on missing data and on division by zero.
\<close>

datatype npfloat = Fin real | NaN | PosInf | NegInf

text \<open>
  The value of one cell of the data frame: a shapely Point, a float, a pandas Timedelta or
  Timestamp (nanoseconds), the missing time NaT, Python's None, or any other object.
\<close>

datatype cell =
    Point real real
  | Float npfloat
  | Timedelta int
  | Timestamp int
  | NaT
  | PyNone
  | Obj string

record crs_info =
  crs_name :: string
  is_geographic :: bool
  unit_name :: string

text \<open>
  A GeoDataFrame with a DatetimeIndex, column-major as pandas stores it: the labels of the
  index, the columns in order, each a name and its values, the name of the active geometry
  column and the CRS. A label is a timestamp in nanoseconds. The index that the constructor
  builds may also hold the missing time NaT: there a label is a \<open>stamp\<close>, None being
  NaT. The methods that compute with the labels are modelled on a \<open>dataframe\<close>, whose
  labels are all timestamps.
\<close>

type_synonym stamp = "int option"

record 'l frame =
  index :: "'l list"
  cols :: "(string \<times> cell list) list"
  geometry_name :: string
  crs :: "crs_info option"

type_synonym dataframe = "int frame"

text \<open>\<open>conversion\<close> is the named tuple that \<open>get_conversion\<close> returns.\<close>

record conversion =
  conv_crs :: real
  conv_distance :: real
  conv_time :: real
  conv_time2 :: real

text \<open>
  The functions this module imports from \<open>geometry_utils\<close> and \<open>unit_utils\<close>, and the
  library calls whose result is text. They receive Python objects and may raise. From
  pandas come the order in which \<open>sort_index\<close> puts timestamps, the missing value with
  which it fills a cell of a column (NaN, NaT or None, by the type of the column), and what
  \<open>to_datetime\<close> makes of text and numbers.
\<close>

record externals =
  measure_distance_geodesic :: "cell \<Rightarrow> cell \<Rightarrow> error + real"
  measure_distance_euclidean :: "cell \<Rightarrow> cell \<Rightarrow> error + real"
  calculate_initial_compass_bearing :: "cell \<Rightarrow> cell \<Rightarrow> error + real"
  azimuth :: "cell \<Rightarrow> cell \<Rightarrow> error + real"
  angular_difference :: "cell \<Rightarrow> cell \<Rightarrow> error + cell"
  to_unixtime :: "int \<Rightarrow> real"
  format_float :: "real \<Rightarrow> string"
  format_datetime :: "int \<Rightarrow> string"
  format_obj :: "cell \<Rightarrow> string"
  argsort :: "int list \<Rightarrow> nat list"
  na_value :: "cell list \<Rightarrow> cell"
  parse_datetime :: "cell \<Rightarrow> error + stamp"
  get_conversion :: "string option list \<Rightarrow> string option \<Rightarrow> error + conversion"

text \<open>
  The Trajectory object. The \<open>*_col_name\<close> attributes exist only once the matching
  \<open>add_*\<close> method has run (\<open>hasattr\<close>), hence the options. \<open>parent\<close> keeps the
  identifier of the parent trajectory.
\<close>

record 'l traj =
  traj_id :: string
  obj_id :: "string option"
  df :: "'l frame"
  traj_crs :: "crs_info option"
  crs_units :: "string option"
  is_latlon :: bool
  parent :: "string option"
  direction_col_name :: "string option"
  angular_difference_col_name :: "string option"
  distance_col_name :: "string option"
  speed_col_name :: "string option"
  acceleration_col_name :: "string option"
  timedelta_col_name :: "string option"

type_synonym trajectory = "int traj"

definition ACCELERATION_COL_NAME :: string where "ACCELERATION_COL_NAME = ''acceleration''"
definition ANGULAR_DIFFERENCE_COL_NAME :: string where
  "ANGULAR_DIFFERENCE_COL_NAME = ''angular_difference''"
definition DIRECTION_COL_NAME :: string where "DIRECTION_COL_NAME = ''direction''"
definition DISTANCE_COL_NAME :: string where "DISTANCE_COL_NAME = ''distance''"
definition SPEED_COL_NAME :: string where "SPEED_COL_NAME = ''speed''"
definition TIMEDELTA_COL_NAME :: string where "TIMEDELTA_COL_NAME = ''timedelta''"

section \<open>Data frame operations\<close>

definition columns :: "'l frame \<Rightarrow> string list" where
  "columns d = map fst (cols d)"

text \<open>\<open>d[c]\<close>: the values of column \<open>c\<close>, KeyError when there is none.\<close>

definition get_col :: "'l frame \<Rightarrow> string \<Rightarrow> error + cell list" where
  "get_col d c = (case map_of (cols d) c of None \<Rightarrow> Inl (KeyError c) | Some vs \<Rightarrow> Inr vs)"

text \<open>\<open>d[c] = vs\<close> and \<open>d.assign(c=vs)\<close>: replace the column in place, or append it.\<close>

definition set_col :: "string \<Rightarrow> cell list \<Rightarrow> 'l frame \<Rightarrow> 'l frame" where
  "set_col c vs d =
     d\<lparr>cols := (if c \<in> set (columns d)
                 then map (\<lambda>(n, old). if n = c then (n, vs) else (n, old)) (cols d)
                 else cols d @ [(c, vs)])\<rparr>"

text \<open>\<open>d.drop(columns=cs)\<close>: KeyError when a label is not a column.\<close>

definition drop_cols :: "string list \<Rightarrow> 'l frame \<Rightarrow> error + 'l frame" where
  "drop_cols cs d =
     (case filter (\<lambda>c. c \<notin> set (columns d)) cs of
        [] \<Rightarrow> Inr (d\<lparr>cols := filter (\<lambda>(n, vs). n \<notin> set cs) (cols d)\<rparr>)
      | c # _ \<Rightarrow> Inl (KeyError c))"

text \<open>\<open>s.shift()\<close>: every value moves down one row, the first row gets the fill value.\<close>

definition shift :: "cell \<Rightarrow> cell list \<Rightarrow> cell list" where
  "shift fill vs = (if vs = [] then [] else fill # butlast vs)"

text \<open>\<open>d.geometry\<close>: the active geometry column.\<close>

definition geometry :: "dataframe \<Rightarrow> error + cell list" where
  "geometry d =
     (case map_of (cols d) (geometry_name d) of
        None \<Rightarrow> Inl (AttributeError ''geometry'')
      | Some vs \<Rightarrow> Inr vs)"

text \<open>A row, as \<open>apply(axis=1)\<close> and \<open>iloc\<close> hand it out: its label and its cells by name.\<close>

type_synonym row = "int \<times> (string \<times> cell) list"

definition row_at :: "'l frame \<Rightarrow> nat \<Rightarrow> 'l \<times> (string \<times> cell) list" where
  "row_at d i = (index d ! i, map (\<lambda>(n, vs). (n, vs ! i)) (cols d))"

definition rows_of :: "dataframe \<Rightarrow> row list" where
  "rows_of d = map (row_at d) [0..<length (index d)]"

definition row_get :: "row \<Rightarrow> string \<Rightarrow> error + cell" where
  "row_get r c = (case map_of (snd r) c of None \<Rightarrow> Inl (KeyError c) | Some v \<Rightarrow> Inr v)"

text \<open>Running a function over a list stops at the first exception.\<close>

fun traverse :: "('a \<Rightarrow> error + 'b) \<Rightarrow> 'a list \<Rightarrow> error + 'b list" where
  "traverse f [] = Inr []"
| "traverse f (x # xs) =
     (case f x of
        Inl e \<Rightarrow> Inl e
      | Inr y \<Rightarrow> (case traverse f xs of Inl e \<Rightarrow> Inl e | Inr ys \<Rightarrow> Inr (y # ys)))"

text \<open>Sequencing: the second computation runs when the first did not raise.\<close>

definition bindE :: "error + 'a \<Rightarrow> ('a \<Rightarrow> error + 'b) \<Rightarrow> error + 'b" where
  "bindE m f = (case m of Inl e \<Rightarrow> Inl e | Inr x \<Rightarrow> f x)"

text \<open>\<open>d.apply(f, axis=1)\<close>\<close>

definition apply_rows :: "(row \<Rightarrow> error + cell) \<Rightarrow> dataframe \<Rightarrow> error + cell list" where
  "apply_rows f d = traverse f (rows_of d)"

text \<open>\<open>d.iloc[i]\<close> with a non-negative position.\<close>

definition iloc :: "dataframe \<Rightarrow> nat \<Rightarrow> error + row" where
  "iloc d i = (if i < length (index d) then Inr (row_at d i) else Inl IndexError)"

text \<open>
  \<open>d.at[t, c] = v\<close>: the cell of column \<open>c\<close> in every row labelled \<open>t\<close>. When no
  row bears the label, pandas enlarges the frame: a row labelled \<open>t\<close> is appended, with
  \<open>v\<close> in column \<open>c\<close> and the missing value in every other column.
\<close>

definition set_at :: "externals \<Rightarrow> int \<Rightarrow> string \<Rightarrow> cell \<Rightarrow> dataframe \<Rightarrow> dataframe" where
  "set_at ext t c v d =
     (if t \<in> set (index d)
      then d\<lparr>cols := map (\<lambda>(n, vs). if n = c
                       then (n, map (\<lambda>(k, old). if k = t then v else old) (zip (index d) vs))
                       else (n, vs)) (cols d)\<rparr>
      else d\<lparr>index := index d @ [t],
             cols := map (\<lambda>(n, vs). (n, vs @ [if n = c then v else na_value ext vs])) (cols d)\<rparr>)"

text \<open>The cell of column \<open>c\<close> at position \<open>i\<close>, when there is one.\<close>

definition cell_at :: "dataframe \<Rightarrow> string \<Rightarrow> nat \<Rightarrow> cell option" where
  "cell_at d c i =
     (case map_of (cols d) c of
        None \<Rightarrow> None
      | Some vs \<Rightarrow> if i < length vs then Some (vs ! i) else None)"

section \<open>Trajectory: times\<close>

text \<open>
  \<open>Timestamp.to_pydatetime()\<close>: a \<open>datetime.datetime\<close> counts whole microseconds, so
  the nanoseconds of the timestamp are dropped.
\<close>

definition to_pydatetime :: "int \<Rightarrow> int" where
  "to_pydatetime t = t - t mod 1000"

text \<open>
  \<open>get_start_time\<close> and \<open>get_end_time\<close> are the minimum and the maximum of the index,
  as a \<open>datetime.datetime\<close>. An empty index has neither (pandas answers NaT); no
  constructed Trajectory is empty and the model reports the case as an error.
\<close>

definition get_start_time :: "trajectory \<Rightarrow> error + int" where
  "get_start_time tr =
     (case index (df tr) of
        [] \<Rightarrow> Inl (ValueError ''NaT'')
      | t # ts \<Rightarrow> Inr (to_pydatetime (fold min ts t)))"

definition get_end_time :: "trajectory \<Rightarrow> error + int" where
  "get_end_time tr =
     (case index (df tr) of
        [] \<Rightarrow> Inl (ValueError ''NaT'')
      | t # ts \<Rightarrow> Inr (to_pydatetime (fold max ts t)))"

definition get_geom_column_name :: "trajectory \<Rightarrow> string" where
  "get_geom_column_name tr = geometry_name (df tr)"

section \<open>Python and numpy arithmetic\<close>

text \<open>\<open>isinstance(v, Point)\<close>\<close>

fun isinstance_Point :: "cell \<Rightarrow> bool" where
  "isinstance_Point (Point x y) = True"
| "isinstance_Point _ = False"

text \<open>
  \<open>a == b\<close> on cells: Points are equal when their coordinates are, NaN and NaT equal
  nothing, values of different kinds are different.
\<close>

fun py_eq :: "cell \<Rightarrow> cell \<Rightarrow> bool" where
  "py_eq (Point a b) v = (case v of Point c d \<Rightarrow> a = c \<and> b = d | _ \<Rightarrow> False)"
| "py_eq (Float a) v = (case v of Float b \<Rightarrow> a \<noteq> NaN \<and> a = b | _ \<Rightarrow> False)"
| "py_eq (Timedelta a) v = (case v of Timedelta b \<Rightarrow> a = b | _ \<Rightarrow> False)"
| "py_eq (Timestamp a) v = (case v of Timestamp b \<Rightarrow> a = b | _ \<Rightarrow> False)"
| "py_eq NaT v = False"
| "py_eq PyNone v = (case v of PyNone \<Rightarrow> True | _ \<Rightarrow> False)"
| "py_eq (Obj a) v = (case v of Obj b \<Rightarrow> a = b | _ \<Rightarrow> False)"

text \<open>\<open>v.total_seconds()\<close> of a Timedelta in nanoseconds; NaT answers nan.\<close>

fun total_seconds :: "cell \<Rightarrow> error + npfloat" where
  "total_seconds (Timedelta n) = Inr (Fin (real_of_int n / 1000000000))"
| "total_seconds NaT = Inr NaN"
| "total_seconds _ = Inl (AttributeError ''total_seconds'')"

text \<open>Python's \<open>a / b\<close> on floats raises on a zero divisor.\<close>

definition py_truediv :: "real \<Rightarrow> real \<Rightarrow> error + real" where
  "py_truediv a b = (if b = 0 then Inl ZeroDivisionError else Inr (a / b))"

fun py_truediv_float :: "real \<Rightarrow> npfloat \<Rightarrow> error + npfloat" where
  "py_truediv_float a (Fin b) = (if b = 0 then Inl ZeroDivisionError else Inr (Fin (a / b)))"
| "py_truediv_float a NaN = Inr NaN"
| "py_truediv_float a PosInf = Inr (Fin 0)"
| "py_truediv_float a NegInf = Inr (Fin 0)"

fun mul_scalar :: "npfloat \<Rightarrow> real \<Rightarrow> npfloat" where
  "mul_scalar (Fin a) c = Fin (a * c)"
| "mul_scalar NaN c = NaN"
| "mul_scalar PosInf c = (if c > 0 then PosInf else if c < 0 then NegInf else NaN)"
| "mul_scalar NegInf c = (if c > 0 then NegInf else if c < 0 then PosInf else NaN)"

text \<open>numpy's elementwise \<open>a - b\<close> and \<open>a / b\<close>: no exception, inf and nan instead.\<close>

fun np_sub :: "npfloat \<Rightarrow> npfloat \<Rightarrow> npfloat" where
  "np_sub (Fin a) v = (case v of Fin b \<Rightarrow> Fin (a - b) | NaN \<Rightarrow> NaN | PosInf \<Rightarrow> NegInf | NegInf \<Rightarrow> PosInf)"
| "np_sub NaN v = NaN"
| "np_sub PosInf v = (case v of NaN \<Rightarrow> NaN | PosInf \<Rightarrow> NaN | _ \<Rightarrow> PosInf)"
| "np_sub NegInf v = (case v of NaN \<Rightarrow> NaN | NegInf \<Rightarrow> NaN | _ \<Rightarrow> NegInf)"

fun np_div :: "npfloat \<Rightarrow> npfloat \<Rightarrow> npfloat" where
  "np_div (Fin a) v =
     (case v of
        Fin b \<Rightarrow> if b \<noteq> 0 then Fin (a / b)
                 else if a > 0 then PosInf else if a < 0 then NegInf else NaN
      | NaN \<Rightarrow> NaN
      | _ \<Rightarrow> Fin 0)"
| "np_div NaN v = NaN"
| "np_div PosInf v = (case v of Fin b \<Rightarrow> if b \<ge> 0 then PosInf else NegInf | _ \<Rightarrow> NaN)"
| "np_div NegInf v = (case v of Fin b \<Rightarrow> if b \<ge> 0 then NegInf else PosInf | _ \<Rightarrow> NaN)"

text \<open>A float column read for arithmetic: any other object raises.\<close>

fun as_float :: "cell \<Rightarrow> error + npfloat" where
  "as_float (Float x) = Inr x"
| "as_float _ = Inl (TypeError ''unsupported operand type'')"

text \<open>\<open>s.diff()\<close> on floats and on the index; the first row has no predecessor.\<close>

definition diff_float :: "npfloat list \<Rightarrow> npfloat list" where
  "diff_float vs = (case vs of [] \<Rightarrow> [] | v # rest \<Rightarrow> NaN # map2 (\<lambda>a b. np_sub b a) vs rest)"

definition diff_index :: "int list \<Rightarrow> cell list" where
  "diff_index ts = (case ts of [] \<Rightarrow> [] | t # rest \<Rightarrow> NaT # map2 (\<lambda>a b. Timedelta (b - a)) ts rest)"

definition diff_index_seconds :: "int list \<Rightarrow> npfloat list" where
  "diff_index_seconds ts =
     (case ts of [] \<Rightarrow> []
      | t # rest \<Rightarrow> NaN # map2 (\<lambda>a b. Fin (real_of_int (b - a) / 1000000000)) ts rest)"

section \<open>Per-row computations\<close>

definition scaled_distance :: "externals \<Rightarrow> trajectory \<Rightarrow> conversion \<Rightarrow> cell \<Rightarrow> cell \<Rightarrow> error + real" where
  "scaled_distance ext tr conv pt0 pt1 =
     bindE (if is_latlon tr then measure_distance_geodesic ext pt0 pt1
            else measure_distance_euclidean ext pt0 pt1)
       (\<lambda>m. py_truediv (m * conv_crs conv) (conv_distance conv))"

definition invalid_trajectory :: "externals \<Rightarrow> cell \<Rightarrow> error" where
  "invalid_trajectory ext pt1 =
     ValueError (''Invalid trajectory! Got '' @ format_obj ext pt1 @ '' instead of point!'')"

definition compute_distance :: "externals \<Rightarrow> trajectory \<Rightarrow> conversion \<Rightarrow> row \<Rightarrow> error + cell" where
  "compute_distance ext tr conv r =
     bindE (row_get r ''prev_pt'') (\<lambda>pt0.
     bindE (row_get r (get_geom_column_name tr)) (\<lambda>pt1.
       if \<not> isinstance_Point pt0 then Inr (Float (Fin 0))
       else if \<not> isinstance_Point pt1 then Inl (invalid_trajectory ext pt1)
       else if py_eq pt0 pt1 then Inr (Float (Fin 0))
       else bindE (scaled_distance ext tr conv pt0 pt1) (\<lambda>dist_computed.
            Inr (Float (Fin dist_computed)))))"

definition compute_heading :: "externals \<Rightarrow> trajectory \<Rightarrow> row \<Rightarrow> error + cell" where
  "compute_heading ext tr r =
     bindE (row_get r ''prev_pt'') (\<lambda>pt0.
     bindE (row_get r (get_geom_column_name tr)) (\<lambda>pt1.
       if \<not> isinstance_Point pt0 then Inr (Float (Fin 0))
       else if py_eq pt0 pt1 then Inr (Float (Fin 0))
       else bindE (if is_latlon tr then calculate_initial_compass_bearing ext pt0 pt1
                   else azimuth ext pt0 pt1)
              (\<lambda>b. Inr (Float (Fin b)))))"

definition compute_angular_difference :: "externals \<Rightarrow> row \<Rightarrow> error + cell" where
  "compute_angular_difference ext r =
     bindE (row_get r ''prev_direction'') (\<lambda>degrees1.
     bindE (row_get r ''direction'') (\<lambda>degrees2.
       if py_eq degrees1 degrees2 then Inr (Float (Fin 0))
       else angular_difference ext degrees1 degrees2))"

definition compute_speed :: "externals \<Rightarrow> trajectory \<Rightarrow> conversion \<Rightarrow> row \<Rightarrow> error + cell" where
  "compute_speed ext tr conv r =
     bindE (row_get r ''prev_pt'') (\<lambda>pt0.
     bindE (row_get r (get_geom_column_name tr)) (\<lambda>pt1.
       if \<not> isinstance_Point pt0 then Inr (Float (Fin 0))
       else if \<not> isinstance_Point pt1 then Inl (invalid_trajectory ext pt1)
       else if py_eq pt0 pt1 then Inr (Float (Fin 0))
       else bindE (scaled_distance ext tr conv pt0 pt1) (\<lambda>dist_computed.
            bindE (row_get r ''delta_t'') (\<lambda>delta_t.
            bindE (total_seconds delta_t) (\<lambda>secs.
            bindE (py_truediv_float dist_computed secs) (\<lambda>q.
            Inr (Float (mul_scalar q (conv_time conv)))))))))"

section \<open>Derived frames\<close>

definition get_df_with_timedelta :: "trajectory \<Rightarrow> string \<Rightarrow> dataframe" where
  "get_df_with_timedelta tr name =
     (let temp_df = df tr in set_col name (diff_index (index temp_df)) temp_df)"

definition get_df_with_distance ::
  "externals \<Rightarrow> trajectory \<Rightarrow> conversion \<Rightarrow> string \<Rightarrow> error + dataframe" where
  "get_df_with_distance ext tr conv name =
     (let temp_df = df tr in
      bindE (geometry temp_df) (\<lambda>g.
      let temp_df = set_col ''prev_pt'' (shift PyNone g) temp_df in
      bindE (apply_rows (compute_distance ext tr conv) temp_df) (\<lambda>vs.
      let temp_df = set_col name vs temp_df in
      bindE (get_start_time tr) (\<lambda>t0.
      let temp_df = set_at ext t0 name (Float (Fin 0)) temp_df in
      drop_cols [''prev_pt''] temp_df))))"

definition get_df_with_speed ::
  "externals \<Rightarrow> trajectory \<Rightarrow> conversion \<Rightarrow> string \<Rightarrow> error + dataframe" where
  "get_df_with_speed ext tr conv name =
     (let temp_df = get_df_with_timedelta tr ''delta_t'' in
      bindE (geometry temp_df) (\<lambda>g.
      let temp_df = set_col ''prev_pt'' (shift PyNone g) temp_df in
      bindE (apply_rows (compute_speed ext tr conv) temp_df) (\<lambda>vs.
      let temp_df = set_col name vs temp_df in
      bindE (iloc temp_df 1) (\<lambda>r.
      bindE (row_get r name) (\<lambda>v.
      bindE (get_start_time tr) (\<lambda>t0.
      let temp_df = set_at ext t0 name v temp_df in
      drop_cols [''prev_pt'', ''delta_t''] temp_df))))))"

definition get_df_with_acceleration ::
  "externals \<Rightarrow> trajectory \<Rightarrow> conversion \<Rightarrow> string \<Rightarrow> error + dataframe" where
  "get_df_with_acceleration ext tr conv name =
     bindE (get_df_with_speed ext tr conv ''speed_temp'') (\<lambda>temp_df.
     bindE (get_col temp_df ''speed_temp'') (\<lambda>speed_temp.
     bindE (traverse as_float speed_temp) (\<lambda>speeds.
     let acc = map2 (\<lambda>a b. Float (mul_scalar (np_div a b) (conv_time2 conv)))
                 (diff_float speeds) (diff_index_seconds (index temp_df));
         temp_df = set_col name acc temp_df in
     bindE (iloc temp_df 1) (\<lambda>r.
     bindE (row_get r name) (\<lambda>v.
     bindE (get_start_time tr) (\<lambda>t0.
     let temp_df = set_at ext t0 name v temp_df in
     drop_cols [''speed_temp''] temp_df))))))"

section \<open>The \<open>add_*\<close> methods\<close>

text \<open>
  A method returns its outcome and the Trajectory as it leaves it, also when it raises.
\<close>

type_synonym outcome = "(error + unit) \<times> trajectory"

definition bindS :: "error + 'a \<Rightarrow> trajectory \<Rightarrow> ('a \<Rightarrow> outcome) \<Rightarrow> outcome" where
  "bindS m tr f = (case m of Inl e \<Rightarrow> (Inl e, tr) | Inr x \<Rightarrow> f x)"

definition column_exists :: "string \<Rightarrow> error" where
  "column_exists name =
     RuntimeError (''Trajectory already has a column named '' @ name
       @ ''! Use overwrite=True to overwrite exiting values or update the name arg.'')"

definition column_exists_angular :: "string \<Rightarrow> error" where
  "column_exists_angular name =
     RuntimeError (''Trajectory already has a column named '' @ name
       @ ''!Use overwrite=True to overwrite exiting values or update the name arg.'')"

text \<open>
  \<open>UNITS(*units)\<close>: a named tuple of four fields that default to None. The argument is
  the tuple passed by the caller, a lone value being the tuple of length one.
\<close>

definition UNITS :: "string option list \<Rightarrow> error + string option list" where
  "UNITS units =
     (if length units > 4 then Inl (TypeError ''too many positional arguments'')
      else Inr (take 4 (units @ [None, None, None, None])))"

definition conversion_for :: "externals \<Rightarrow> trajectory \<Rightarrow> string option list \<Rightarrow> error + conversion" where
  "conversion_for ext tr units = bindE (UNITS units) (\<lambda>u. get_conversion ext u (crs_units tr))"

definition get_direction_column_name :: "trajectory \<Rightarrow> string" where
  "get_direction_column_name tr =
     (case direction_col_name tr of Some n \<Rightarrow> n | None \<Rightarrow> DIRECTION_COL_NAME)"

definition add_prev_pt :: "bool \<Rightarrow> trajectory \<Rightarrow> outcome" where
  "add_prev_pt force tr =
     (if ''prev_pt'' \<notin> set (columns (df tr)) \<or> force
      then bindS (geometry (df tr)) tr (\<lambda>g.
             (Inr (), tr\<lparr>df := set_col ''prev_pt'' (shift PyNone g) (df tr)\<rparr>))
      else (Inr (), tr))"

definition add_direction :: "externals \<Rightarrow> bool \<Rightarrow> string \<Rightarrow> trajectory \<Rightarrow> outcome" where
  "add_direction ext overwrite name tr0 =
     (let tr = tr0\<lparr>direction_col_name := Some name\<rparr> in
      if name \<in> set (columns (df tr)) \<and> \<not> overwrite then (Inl (column_exists name), tr)
      else case add_prev_pt True tr of
        (Inl e, tr) \<Rightarrow> (Inl e, tr)
      | (Inr u, tr) \<Rightarrow>
          bindS (apply_rows (compute_heading ext tr) (df tr)) tr (\<lambda>vs.
          let tr = tr\<lparr>df := set_col name vs (df tr)\<rparr> in
          bindS (iloc (df tr) 1) tr (\<lambda>r.
          bindS (row_get r name) tr (\<lambda>v.
          bindS (get_start_time tr) tr (\<lambda>t0.
          let tr = tr\<lparr>df := set_at ext t0 name v (df tr)\<rparr> in
          bindS (drop_cols [''prev_pt''] (df tr)) tr (\<lambda>d.
          (Inr (), tr\<lparr>df := d\<rparr>)))))))"

definition add_angular_difference :: "externals \<Rightarrow> bool \<Rightarrow> string \<Rightarrow> trajectory \<Rightarrow> outcome" where
  "add_angular_difference ext overwrite name tr0 =
     (let tr = tr0\<lparr>angular_difference_col_name := Some name\<rparr> in
      if name \<in> set (columns (df tr)) \<and> \<not> overwrite then (Inl (column_exists_angular name), tr)
      else
        let direction_column_name = get_direction_column_name tr;
            direction_exists = (direction_column_name \<in> set (columns (df tr)))
        in case (if direction_exists then (Inr (), tr)
                 else add_direction ext False DIRECTION_COL_NAME tr) of
          (Inl e, tr) \<Rightarrow> (Inl e, tr)
        | (Inr u, tr) \<Rightarrow>
            let temp_df = df tr in
            bindS (get_col temp_df direction_column_name) tr (\<lambda>dcol.
            let temp_df = set_col (''prev_'' @ direction_column_name)
                            (shift (Float NaN) dcol) temp_df in
            bindS (apply_rows (compute_angular_difference ext) temp_df) tr (\<lambda>vs.
            let tr = tr\<lparr>df := set_col name vs (df tr)\<rparr> in
            bindS (get_start_time tr) tr (\<lambda>t0.
            let tr = tr\<lparr>df := set_at ext t0 name (Float (Fin 0)) (df tr)\<rparr> in
            if \<not> direction_exists
            then bindS (drop_cols [DIRECTION_COL_NAME] (df tr)) tr (\<lambda>d. (Inr (), tr\<lparr>df := d\<rparr>))
            else (Inr (), tr)))))"

definition add_distance ::
  "externals \<Rightarrow> bool \<Rightarrow> string \<Rightarrow> string option list \<Rightarrow> trajectory \<Rightarrow> outcome" where
  "add_distance ext overwrite name units tr0 =
     (let tr = tr0\<lparr>distance_col_name := Some name\<rparr> in
      if name \<in> set (columns (df tr)) \<and> \<not> overwrite then (Inl (column_exists name), tr)
      else bindS (conversion_for ext tr units) tr (\<lambda>conv.
           bindS (get_df_with_distance ext tr conv name) tr (\<lambda>d.
           (Inr (), tr\<lparr>df := d\<rparr>))))"

definition add_speed ::
  "externals \<Rightarrow> bool \<Rightarrow> string \<Rightarrow> string option list \<Rightarrow> trajectory \<Rightarrow> outcome" where
  "add_speed ext overwrite name units tr0 =
     (let tr = tr0\<lparr>speed_col_name := Some name\<rparr> in
      if name \<in> set (columns (df tr)) \<and> \<not> overwrite then (Inl (column_exists name), tr)
      else bindS (conversion_for ext tr units) tr (\<lambda>conv.
           bindS (get_df_with_speed ext tr conv name) tr (\<lambda>d.
           (Inr (), tr\<lparr>df := d\<rparr>))))"

definition add_acceleration ::
  "externals \<Rightarrow> bool \<Rightarrow> string \<Rightarrow> string option list \<Rightarrow> trajectory \<Rightarrow> outcome" where
  "add_acceleration ext overwrite name units tr0 =
     (let tr = tr0\<lparr>acceleration_col_name := Some name\<rparr> in
      if name \<in> set (columns (df tr)) \<and> \<not> overwrite then (Inl (column_exists name), tr)
      else bindS (conversion_for ext tr units) tr (\<lambda>conv.
           bindS (get_df_with_acceleration ext tr conv name) tr (\<lambda>d.
           (Inr (), tr\<lparr>df := d\<rparr>))))"

definition add_timedelta :: "bool \<Rightarrow> string \<Rightarrow> trajectory \<Rightarrow> outcome" where
  "add_timedelta overwrite name tr0 =
     (let tr = tr0\<lparr>timedelta_col_name := Some name\<rparr> in
      if name \<in> set (columns (df tr)) \<and> \<not> overwrite then (Inl (column_exists name), tr)
      else (Inr (), tr\<lparr>df := get_df_with_timedelta tr name\<rparr>))"

section \<open>Construction\<close>

text \<open>
  The table handed to the constructor: a GeoDataFrame (with the name of its geometry
  column and its CRS) or a plain DataFrame, indexed by a DatetimeIndex (its labels, each a
  timestamp or NaT, and whether they carry a time zone) or by anything else (only the number
  of rows matters).
\<close>

datatype index_kind = DatetimeIndex "stamp list" bool | OtherIndex nat

record table =
  t_index :: index_kind
  t_cols :: "(string \<times> cell list) list"
  t_geo :: "(string \<times> crs_info option) option"

datatype warning = TimeZoneWarning | MissingCRSWarning

text \<open>\<open>len(df)\<close>\<close>

definition len_table :: "table \<Rightarrow> nat" where
  "len_table tb = (case t_index tb of DatetimeIndex ts tz \<Rightarrow> length ts | OtherIndex n \<Rightarrow> n)"

text \<open>The rows at the given positions, in that order.\<close>

definition take_rows :: "nat list \<Rightarrow> 'l frame \<Rightarrow> 'l frame" where
  "take_rows ps d =
     d\<lparr>index := map (\<lambda>i. index d ! i) ps,
       cols := map (\<lambda>(n, vs). (n, map (\<lambda>i. vs ! i) ps)) (cols d)\<rparr>"

text \<open>The timestamps among the labels, in their order.\<close>

definition timestamps :: "stamp list \<Rightarrow> int list" where
  "timestamps ls = map the (filter (\<lambda>l. l \<noteq> None) ls)"

text \<open>
  \<open>df.sort_index()\<close> orders the rows as \<open>nargsort\<close> of pandas orders the labels:
  first the positions of the timestamps, in the order that the sorting routine of the
  library returns for them (pandas does not promise a stable sort), then the positions of
  NaT.
\<close>

definition nargsort :: "externals \<Rightarrow> stamp list \<Rightarrow> nat list" where
  "nargsort ext ls =
     (let idx = [0..<length ls];
          non_nan_idx = filter (\<lambda>i. ls ! i \<noteq> None) idx;
          nan_idx = filter (\<lambda>i. ls ! i = None) idx
      in map (\<lambda>k. non_nan_idx ! k) (argsort ext (map (\<lambda>i. the (ls ! i)) non_nan_idx)) @ nan_idx)"

definition sort_index :: "externals \<Rightarrow> stamp frame \<Rightarrow> stamp frame" where
  "sort_index ext d = take_rows (nargsort ext (index d)) d"

text \<open>
  \<open>index.duplicated(keep="first")\<close>: true where the label occurred before. NaT counts
  as a label like any other.
\<close>

definition duplicated :: "'l list \<Rightarrow> bool list" where
  "duplicated ts = map (\<lambda>i. ts ! i \<in> set (take i ts)) [0..<length ts]"

text \<open>\<open>df[~df.index.duplicated(keep="first")]\<close>\<close>

definition drop_duplicated :: "'l frame \<Rightarrow> 'l frame" where
  "drop_duplicated d =
     take_rows (filter (\<lambda>i. \<not> duplicated (index d) ! i) [0..<length (index d)]) d"

text \<open>\<open>Point(xy)\<close> from two float cells.\<close>

fun make_point :: "cell \<times> cell \<Rightarrow> error + cell" where
  "make_point (Float (Fin a), Float (Fin b)) = Inr (Point a b)"
| "make_point _ = Inl (TypeError ''Point'')"

text \<open>
  \<open>to_datetime\<close> on a cell: a timestamp stays, a missing value (NaT, None, nan) becomes
  NaT and nothing is raised for it; what text and numbers become is the library's.
\<close>

fun to_datetime :: "externals \<Rightarrow> cell \<Rightarrow> error + stamp" where
  "to_datetime ext (Timestamp n) = Inr (Some n)"
| "to_datetime ext NaT = Inr None"
| "to_datetime ext PyNone = Inr None"
| "to_datetime ext (Float x) = (case x of NaN \<Rightarrow> Inr None | _ \<Rightarrow> parse_datetime ext (Float x))"
| "to_datetime ext (Point x y) = parse_datetime ext (Point x y)"
| "to_datetime ext (Timedelta n) = parse_datetime ext (Timedelta n)"
| "to_datetime ext (Obj s) = parse_datetime ext (Obj s)"

definition two_rows :: error where
  "two_rows = ValueError ''The input DataFrame must have at least two rows.''"

definition needs_geometry :: error where
  "needs_geometry = ValueError
     (''The input DataFrame needs to be a GeoDataFrame or x and y columns''
      @ ''need to be specified.'')"

definition needs_index :: error where
  "needs_index = TypeError
     (''The input DataFrame needs a DatetimeIndex or a timestamp column''
      @ ''needs to be specified. Use Pandas'' @ [CHR 0x27] @ '' set_index() method to create an''
      @ ''index or specify the timestamp column name.'')"

text \<open>Step 1 of the constructor: a GeoDataFrame, built from the x and y columns if need be.\<close>

definition as_geodataframe ::
  "table \<Rightarrow> string option \<Rightarrow> string option \<Rightarrow> crs_info option \<Rightarrow> error + stamp frame" where
  "as_geodataframe tb x y crs_arg =
     (case t_geo tb of
        Some (g, c) \<Rightarrow> Inr \<lparr>index = [], cols = t_cols tb, geometry_name = g, crs = c\<rparr>
      | None \<Rightarrow>
          (if x = None \<or> y = None then Inl needs_geometry
           else
             (let d = \<lparr>index = [], cols = t_cols tb, geometry_name = ''geometry'', crs = crs_arg\<rparr> in
              bindE (drop_cols [the x, the y] d) (\<lambda>dropped.
              bindE (get_col d (the x)) (\<lambda>xs.
              bindE (get_col d (the y)) (\<lambda>ys.
              bindE (traverse make_point (zip xs ys)) (\<lambda>pts.
              Inr (set_col ''geometry'' pts dropped))))))))"

text \<open>Step 2: a DatetimeIndex, taken from the timestamp column if need be.\<close>

definition with_datetime_index ::
  "externals \<Rightarrow> table \<Rightarrow> string option \<Rightarrow> stamp frame \<Rightarrow> error + stamp frame \<times> bool" where
  "with_datetime_index ext tb t d =
     (case t_index tb of
        DatetimeIndex ts tz \<Rightarrow> Inr (d\<lparr>index := ts\<rparr>, tz)
      | OtherIndex n \<Rightarrow>
          (if t = None then Inl needs_index
           else
             bindE (get_col d (the t)) (\<lambda>tcol.
             bindE (traverse (to_datetime ext) tcol) (\<lambda>ts.
             Inr (d\<lparr>index := ts, cols := filter (\<lambda>(n, vs). n \<noteq> the t) (cols d)\<rparr>, False)))))"

definition Trajectory_init ::
  "externals \<Rightarrow> table \<Rightarrow> string \<Rightarrow> string option \<Rightarrow> string option \<Rightarrow> string option
     \<Rightarrow> string option \<Rightarrow> crs_info option \<Rightarrow> string option \<Rightarrow> error + stamp traj \<times> warning list" where
  "Trajectory_init ext tb traj_id_arg obj_id_arg t x y crs_arg parent_arg =
     (if len_table tb < 2 then Inl two_rows
      else bindE (as_geodataframe tb x y crs_arg) (\<lambda>d0.
           bindE (with_datetime_index ext tb t d0) (\<lambda>(d1, tz).
           let w1 = (if tz then [TimeZoneWarning] else []);
               d = sort_index ext d1;
               self_df = drop_duplicated d
           in Inr (\<lparr>traj_id = traj_id_arg, obj_id = obj_id_arg, df = self_df, traj_crs = crs d,
                     crs_units = (case crs d of None \<Rightarrow> None | Some c \<Rightarrow> Some (unit_name c)),
                     is_latlon = (case crs d of None \<Rightarrow> False | Some c \<Rightarrow> is_geographic c),
                     parent = parent_arg, direction_col_name = None,
                     angular_difference_col_name = None, distance_col_name = None,
                     speed_col_name = None, acceleration_col_name = None,
                     timedelta_col_name = None\<rparr>,
                   w1 @ (case crs d of None \<Rightarrow> [MissingCRSWarning] | Some c \<Rightarrow> [])))))"

text \<open>
  \<open>index.min()\<close> and \<open>index.max()\<close> where a label may be NaT: NaT is skipped, and is
  the answer when no timestamp is left. \<open>to_pydatetime\<close> keeps NaT.
\<close>

definition index_min :: "stamp list \<Rightarrow> stamp" where
  "index_min ls = (case timestamps ls of [] \<Rightarrow> None | t # ts \<Rightarrow> Some (fold min ts t))"

definition index_max :: "stamp list \<Rightarrow> stamp" where
  "index_max ls = (case timestamps ls of [] \<Rightarrow> None | t # ts \<Rightarrow> Some (fold max ts t))"

text \<open>
  \<open>is_valid\<close> is asked of the object that the constructor has just built. The start and
  the end time are those of \<open>get_start_time\<close> and \<open>get_end_time\<close>, read on its labels;
  a comparison with NaT is false.
\<close>

definition is_valid :: "stamp traj \<Rightarrow> bool" where
  "is_valid tr =
     (if length (index (df tr)) < 2 then False
      else if \<not> (case map_option to_pydatetime (index_min (index (df tr))) of
                   None \<Rightarrow> False
                 | Some a \<Rightarrow> (case map_option to_pydatetime (index_max (index (df tr))) of
                                None \<Rightarrow> False
                              | Some b \<Rightarrow> a < b))
      then False
      else True)"

section \<open>Queries in time\<close>

text \<open>
  \<open>df[t1:t2]\<close> on a monotonic DatetimeIndex: the rows from the first label not before
  \<open>t1\<close> up to the last label not after \<open>t2\<close>.
\<close>

definition slice_rows :: "int \<Rightarrow> int \<Rightarrow> dataframe \<Rightarrow> dataframe" where
  "slice_rows t1 t2 d =
     take_rows [length (takeWhile (\<lambda>x. x < t1) (index d)) ..<
                length (takeWhile (\<lambda>x. x \<le> t2) (index d))] d"

definition failed_segment :: "externals \<Rightarrow> int \<Rightarrow> int \<Rightarrow> error" where
  "failed_segment ext t1 t2 =
     RuntimeError (''Failed to extract valid trajectory segment between ''
       @ format_datetime ext t1 @ '' and '' @ format_datetime ext t2)"

definition get_segment_between ::
  "externals \<Rightarrow> trajectory \<Rightarrow> int \<Rightarrow> int \<Rightarrow> error + stamp traj \<times> warning list" where
  "get_segment_between ext tr t1 t2 =
     (let sl = slice_rows t1 t2 (df tr) in
      bindE (Trajectory_init ext
               \<lparr>t_index = DatetimeIndex (map Some (index sl)) False, t_cols = cols sl,
                t_geo = Some (geometry_name sl, crs sl)\<rparr>
               (traj_id tr @ ''_'' @ format_datetime ext t1) None None None None None
               (Some (traj_id tr)))
        (\<lambda>(segment, ws).
           if \<not> is_valid segment then Inl (failed_segment ext t1 t2)
           else Inr (segment, ws)))"

text \<open>\<open>xs[i]\<close> and \<open>df.iloc[i]\<close> with Python's negative positions.\<close>

definition py_index :: "nat \<Rightarrow> int \<Rightarrow> nat option" where
  "py_index n i =
     (let j = (if i < 0 then int n + i else i)
      in if 0 \<le> j \<and> j < int n then Some (nat j) else None)"

definition iloc_int :: "dataframe \<Rightarrow> int \<Rightarrow> error + row" where
  "iloc_int d i =
     (case py_index (length (index d)) i of None \<Rightarrow> Inl IndexError | Some j \<Rightarrow> Inr (row_at d j))"

text \<open>\<open>df.loc[t]\<close>: the row labelled \<open>t\<close> (the index of a Trajectory has no duplicates).\<close>

definition loc :: "dataframe \<Rightarrow> int \<Rightarrow> error + row" where
  "loc d t =
     (case filter (\<lambda>i. index d ! i = t) [0..<length (index d)] of
        [] \<Rightarrow> Inl (KeyError ''timestamp'')
      | i # _ \<Rightarrow> Inr (row_at d i))"

text \<open>\<open>index.drop_duplicates()\<close> keeps the first of equal labels.\<close>

fun drop_duplicates :: "int list \<Rightarrow> int list" where
  "drop_duplicates [] = []"
| "drop_duplicates (x # xs) = x # drop_duplicates (filter (\<lambda>y. y \<noteq> x) xs)"

text \<open>
  \<open>index.get_indexer([t], method=method)[0]\<close> on a sorted index without duplicates:
  the position found, or -1.
\<close>

definition pad_indexer :: "int list \<Rightarrow> int \<Rightarrow> int" where
  "pad_indexer xs t = int (length (takeWhile (\<lambda>x. x \<le> t) xs)) - 1"

definition backfill_indexer :: "int list \<Rightarrow> int \<Rightarrow> int" where
  "backfill_indexer xs t =
     (let k = length (takeWhile (\<lambda>x. x < t) xs) in if k < length xs then int k else - 1)"

definition nearest_indexer :: "int list \<Rightarrow> int \<Rightarrow> error + int" where
  "nearest_indexer xs t =
     (let left = pad_indexer xs t; right = backfill_indexer xs t in
      case py_index (length xs) left of None \<Rightarrow> Inl IndexError | Some l \<Rightarrow>
      (case py_index (length xs) right of None \<Rightarrow> Inl IndexError | Some r \<Rightarrow>
        (let left_distances = \<bar>xs ! l - t\<bar>; right_distances = \<bar>xs ! r - t\<bar>
         in Inr (if left_distances < right_distances \<or> right = - 1 then left else right))))"

definition get_indexer :: "int list \<Rightarrow> int \<Rightarrow> string \<Rightarrow> error + int" where
  "get_indexer xs t method =
     (if method = ''pad'' \<or> method = ''ffill'' then Inr (pad_indexer xs t)
      else if method = ''backfill'' \<or> method = ''bfill'' then Inr (backfill_indexer xs t)
      else if method = ''nearest'' then nearest_indexer xs t
      else Inl (ValueError ''Invalid fill method''))"

definition get_row_at :: "trajectory \<Rightarrow> int \<Rightarrow> string \<Rightarrow> error + row" where
  "get_row_at tr t method =
     (case loc (df tr) t of
        Inr r \<Rightarrow> Inr r
      | Inl e \<Rightarrow>
          (let idx = drop_duplicates (sort (index (df tr))) in
           bindE (get_indexer idx t method) (\<lambda>i. iloc_int (df tr) i)))"

text \<open>
  shapely: the line through two cells, which both have to be Points, its length, and the
  point at a distance along it (a negative distance counts from the end).
\<close>

fun LineString :: "cell \<Rightarrow> cell \<Rightarrow> error + (real \<times> real) \<times> (real \<times> real)" where
  "LineString (Point a b) v =
     (case v of Point c d \<Rightarrow> Inr ((a, b), (c, d)) | _ \<Rightarrow> Inl (TypeError ''LineString''))"
| "LineString _ v = Inl (TypeError ''LineString'')"

fun line_length :: "(real \<times> real) \<times> (real \<times> real) \<Rightarrow> real" where
  "line_length ((a, b), (c, d)) = sqrt ((c - a)\<^sup>2 + (d - b)\<^sup>2)"

fun interpolate :: "(real \<times> real) \<times> (real \<times> real) \<Rightarrow> real \<Rightarrow> cell" where
  "interpolate ((a, b), (c, d)) along =
     (let len = line_length ((a, b), (c, d));
          m = (if along < 0 then len + along else along)
      in if m \<le> 0 then Point a b
         else if m \<ge> len then Point c d
         else Point (a + m / len * (c - a)) (b + m / len * (d - b)))"

definition interpolate_position_at :: "trajectory \<Rightarrow> int \<Rightarrow> error + cell" where
  "interpolate_position_at tr t =
     bindE (get_row_at tr t ''ffill'') (\<lambda>prev_row.
     bindE (get_row_at tr t ''bfill'') (\<lambda>next_row.
     let t_diff = fst next_row - fst prev_row;
         t_diff_at = t - fst prev_row in
     bindE (row_get prev_row (get_geom_column_name tr)) (\<lambda>p0.
     bindE (row_get next_row (get_geom_column_name tr)) (\<lambda>p1.
     bindE (LineString p0 p1) (\<lambda>line.
       if t_diff = 0 \<or> line_length line = 0 then Inr p0
       else bindE (py_truediv (real_of_int t_diff_at) (real_of_int t_diff)) (\<lambda>frac.
            Inr (interpolate line (frac * line_length line))))))))"

definition outside_range :: "externals \<Rightarrow> int \<Rightarrow> int \<Rightarrow> int \<Rightarrow> error" where
  "outside_range ext t a b =
     ValueError (''Timestamp '' @ format_datetime ext t @ '' outside the trajectory''
       @ [CHR 0x27] @ ''s time range ('' @ format_datetime ext a @ '' to ''
       @ format_datetime ext b @ '')'')"

definition invalid_method :: "string \<Rightarrow> error" where
  "invalid_method method =
     ValueError (''Invalid method '' @ method
       @ ''. Must be one of [nearest, interpolated, ffill, bfill]'')"

definition get_position_at :: "externals \<Rightarrow> trajectory \<Rightarrow> int \<Rightarrow> string \<Rightarrow> error + cell" where
  "get_position_at ext tr t method =
     bindE (get_start_time tr) (\<lambda>a.
     bindE (get_end_time tr) (\<lambda>b.
       if t < a \<or> t > b then Inl (outside_range ext t a b)
       else if method \<notin> set [''nearest'', ''interpolated'', ''ffill'', ''bfill'']
       then Inl (invalid_method method)
       else if method = ''interpolated'' then interpolate_position_at tr t
       else bindE (get_row_at tr t method) (\<lambda>r. row_get r (get_geom_column_name tr))))"

section \<open>Text export\<close>

text \<open>The loop of \<open>to_linestringm_wkt\<close>: one triple and a separator per row.\<close>

fun wkt_coords :: "externals \<Rightarrow> trajectory \<Rightarrow> row list \<Rightarrow> string \<Rightarrow> error + string" where
  "wkt_coords ext tr [] coords = Inr coords"
| "wkt_coords ext tr (r # rs) coords =
     bindE (row_get r (get_geom_column_name tr)) (\<lambda>pt.
       case pt of
         Point x y \<Rightarrow>
           wkt_coords ext tr rs
             (coords @ format_float ext x @ '' '' @ format_float ext y @ '' ''
                @ format_float ext (to_unixtime ext (fst r)) @ '', '')
       | _ \<Rightarrow> Inl (AttributeError ''x''))"

definition to_linestringm_wkt :: "externals \<Rightarrow> trajectory \<Rightarrow> error + string" where
  "to_linestringm_wkt ext tr =
     bindE (wkt_coords ext tr (rows_of (df tr)) []) (\<lambda>coords.
       Inr (''LINESTRING M ('' @ take (length coords - 2) coords @ '')''))"

section \<open>A worked example\<close>

text \<open>
  The trajectory of the docstring of the constructor: four samples on a planar CRS, at
  12:00, 12:06, 12:10 and 12:15 on 2018-01-01, in nanoseconds since 1970. The functions the module
  imports are instantiated for it: the planar distance and azimuth, the angular difference,
  seconds from nanoseconds, a stable argsort, and a unit table of two entries. Floats that
  are whole numbers print as Python prints them. The missing value of a column is None
  where it holds a Point, NaT where it holds durations, nan otherwise; \<open>to_datetime\<close>
  is given no text or numbers to parse.
\<close>

fun digit_string :: "nat \<Rightarrow> string" where
  "digit_string n =
     (if n < 10 then [''0123456789'' ! n]
      else digit_string (n div 10) @ [''0123456789'' ! (n mod 10)])"

definition str_int :: "int \<Rightarrow> string" where
  "str_int i = (if i < 0 then ''-'' @ digit_string (nat (- i)) else digit_string (nat i))"

definition example_format_float :: "real \<Rightarrow> string" where
  "example_format_float r = (if r = of_int \<lfloor>r\<rfloor> then str_int \<lfloor>r\<rfloor> @ ''.0'' else ''?'')"

definition example_distance :: "cell \<Rightarrow> cell \<Rightarrow> error + real" where
  "example_distance p q =
     (case p of
        Point a b \<Rightarrow> (case q of Point c d \<Rightarrow> Inr (sqrt ((c - a)\<^sup>2 + (d - b)\<^sup>2))
                     | _ \<Rightarrow> Inl (TypeError ''Only Points are supported as arguments''))
      | _ \<Rightarrow> Inl (TypeError ''Only Points are supported as arguments''))"

definition example_azimuth :: "cell \<Rightarrow> cell \<Rightarrow> error + real" where
  "example_azimuth p q =
     (case p of
        Point a b \<Rightarrow> (case q of
            Point c d \<Rightarrow>
              (let dx = c - a; dy = d - b;
                   angle = (if dy > 0 then arctan (dx / dy)
                            else if dy < 0 then (if dx \<ge> 0 then arctan (dx / dy) + pi
                                                 else arctan (dx / dy) - pi)
                            else if dx > 0 then pi / 2 else if dx < 0 then - pi / 2 else 0)
               in Inr (if angle < 0 then angle * 180 / pi + 360 else angle * 180 / pi))
          | _ \<Rightarrow> Inl (TypeError ''Only Points are supported as arguments''))
      | _ \<Rightarrow> Inl (TypeError ''Only Points are supported as arguments''))"

definition example_angular_difference :: "cell \<Rightarrow> cell \<Rightarrow> error + cell" where
  "example_angular_difference x y =
     (case x of
        Float u \<Rightarrow> (case y of
            Float v \<Rightarrow> (case u of
                Fin a \<Rightarrow> (case v of
                    Fin b \<Rightarrow> Inr (Float (Fin (if \<bar>a - b\<bar> > 180 then \<bar>\<bar>a - b\<bar> - 360\<bar> else \<bar>a - b\<bar>)))
                  | _ \<Rightarrow> Inr (Float NaN))
              | _ \<Rightarrow> Inr (Float NaN))
          | _ \<Rightarrow> Inl (TypeError ''unsupported operand type''))
      | _ \<Rightarrow> Inl (TypeError ''unsupported operand type''))"

definition example_get_conversion :: "string option list \<Rightarrow> string option \<Rightarrow> error + conversion" where
  "example_get_conversion units crs_unit =
     (if units = [None, None, None, None]
      then Inr \<lparr>conv_crs = 1, conv_distance = 1, conv_time = 1, conv_time2 = 1\<rparr>
      else if units = [Some ''km'', Some ''h'', None, None]
      then Inr \<lparr>conv_crs = 1, conv_distance = 1000, conv_time = 3600, conv_time2 = 1\<rparr>
      else Inl (ValueError ''Invalid unit''))"

fun is_duration :: "cell \<Rightarrow> bool" where
  "is_duration (Timedelta n) = True"
| "is_duration NaT = True"
| "is_duration _ = False"

definition example_na_value :: "cell list \<Rightarrow> cell" where
  "example_na_value vs =
     (if list_ex isinstance_Point vs then PyNone
      else if vs \<noteq> [] \<and> list_all is_duration vs then NaT
      else Float NaN)"

definition example_externals :: externals where
  "example_externals =
     \<lparr>measure_distance_geodesic =
        (\<lambda>p q. Inl (RuntimeError ''geodesic distance is not part of the example'')),
      measure_distance_euclidean = example_distance,
      calculate_initial_compass_bearing =
        (\<lambda>p q. Inl (RuntimeError ''compass bearing is not part of the example'')),
      azimuth = example_azimuth,
      angular_difference = example_angular_difference,
      to_unixtime = (\<lambda>t. real_of_int t / 1000000000),
      format_float = example_format_float,
      format_datetime = str_int,
      format_obj = (\<lambda>c. case c of PyNone \<Rightarrow> ''None'' | _ \<Rightarrow> ''object''),
      argsort = (\<lambda>ts. sort_key (\<lambda>i. ts ! i) [0..<length ts]),
      na_value = example_na_value,
      parse_datetime = (\<lambda>c. Inl (TypeError ''to_datetime'')),
      get_conversion = example_get_conversion\<rparr>"

definition example_df :: dataframe where
  "example_df =
     \<lparr>index = [1514808000000000000, 1514808360000000000, 1514808600000000000,
               1514808900000000000],
      cols = [(''geometry'', [Point 0 0, Point 6 0, Point 6 6, Point 9 9])],
      geometry_name = ''geometry'',
      crs = None\<rparr>"

definition example_traj :: trajectory where
  "example_traj =
     \<lparr>traj_id = ''1'', obj_id = None, df = example_df, traj_crs = None, crs_units = None,
      is_latlon = False, parent = None, direction_col_name = None,
      angular_difference_col_name = None, distance_col_name = None, speed_col_name = None,
      acceleration_col_name = None, timedelta_col_name = None\<rparr>"

definition stalled_traj :: trajectory where
  "stalled_traj =
     example_traj\<lparr>df := \<lparr>index = [0, 0], cols = [(''geometry'', [Point 0 0, Point 3 4])],
                          geometry_name = ''geometry'', crs = None\<rparr>\<rparr>"

text \<open>
  Three samples a minute apart, the first of them 1500 nanoseconds after the epoch: its
  timestamps are not whole microseconds.
\<close>

definition precise_traj :: trajectory where
  "precise_traj =
     example_traj\<lparr>df := \<lparr>index = [1500, 60000001500, 120000001500],
                          cols = [(''geometry'', [Point 0 0, Point 3 0, Point 3 4])],
                          geometry_name = ''geometry'', crs = None\<rparr>\<rparr>"




text \<open>
  The text the specification asks for: the items in order, a separator between
  consecutive items, none after the last.
\<close>

fun join :: "string \<Rightarrow> string list \<Rightarrow> string" where
  "join sep [] = []"
| "join sep [x] = x"
| "join sep (x # y # ys) = x @ sep @ join sep (y # ys)"

text \<open>The triple of one sample: x, y and the Unix time in seconds, separated by spaces.\<close>

definition triple :: "externals \<Rightarrow> int \<Rightarrow> real \<times> real \<Rightarrow> string" where
  "triple ext t p =
     format_float ext (fst p) @ '' '' @ format_float ext (snd p) @ '' ''
       @ format_float ext (to_unixtime ext t)"

text \<open>
  What is asked of the sorting routine behind \<open>sort_index\<close>: on the labels \<open>ts\<close> it
  returns every position once, in an order in which the labels ascend.
\<close>

definition sorts :: "(int list \<Rightarrow> nat list) \<Rightarrow> int list \<Rightarrow> bool" where
  "sorts f ts \<longleftrightarrow>
     distinct (f ts) \<and> set (f ts) = {0..<length ts} \<and> sorted (map (\<lambda>i. ts ! i) (f ts))"

text \<open>A table for the constructor: out of order, with one timestamp twice.\<close>

definition unsorted_table :: table where
  "unsorted_table =
     \<lparr>t_index = DatetimeIndex [Some 30, Some 10, Some 10, Some 20] False,
      t_cols = [(''geometry'', [Point 9 9, Point 0 0, Point 5 5, Point 6 0])],
      t_geo = Some (''geometry'', None)\<rparr>"

definition unsorted_frame :: "stamp frame" where
  "unsorted_frame =
     \<lparr>index = [Some 30, Some 10, Some 10, Some 20],
      cols = [(''geometry'', [Point 9 9, Point 0 0, Point 5 5, Point 6 0])],
      geometry_name = ''geometry'', crs = None\<rparr>"

definition constructed_frame :: "stamp frame" where
  "constructed_frame =
     \<lparr>index = [Some 10, Some 20, Some 30],
      cols = [(''geometry'', [Point 0 0, Point 6 0, Point 9 9])],
      geometry_name = ''geometry'', crs = None\<rparr>"

text \<open>
  The errors with which this module reports a geometry that cannot be built are
  RuntimeErrors ("Cannot generate LineString", "Failed to extract valid trajectory
  segment", "Cannot generate linestring between"), and \<open>get_linestring_between\<close> catches
  that class, and no other, around \<open>get_segment_between\<close>.
\<close>

fun is_degenerate_geometry_error :: "error \<Rightarrow> bool" where
  "is_degenerate_geometry_error (RuntimeError msg) = True"
| "is_degenerate_geometry_error _ = False"

section \<open>Auxiliary facts\<close>

lemmas frame_eval = example_traj_def example_df_def example_externals_def example_distance_def
  example_azimuth_def example_angular_difference_def example_get_conversion_def
  example_na_value_def
  add_distance_def add_speed_def add_acceleration_def add_timedelta_def add_direction_def
  add_angular_difference_def add_prev_pt_def
  get_df_with_distance_def get_df_with_speed_def get_df_with_acceleration_def get_df_with_timedelta_def
  compute_distance_def compute_speed_def compute_heading_def compute_angular_difference_def
  scaled_distance_def py_truediv_def conversion_for_def UNITS_def
  bindE_def bindS_def Let_def columns_def set_col_def set_at_def drop_cols_def geometry_def shift_def
  apply_rows_def rows_of_def row_at_def row_get_def iloc_def get_start_time_def get_col_def
  get_geom_column_name_def diff_index_def diff_float_def diff_index_seconds_def
  get_direction_column_name_def DIRECTION_COL_NAME_def to_pydatetime_def upt_rec

lemma bindE_Inr_iff: "bindE m f = Inr y \<longleftrightarrow> (\<exists>x. m = Inr x \<and> f x = Inr y)"
  by (cases m) (simp_all add: bindE_def)

lemma bindS_Inr_iff: "bindS m tr f = (Inr u, tr') \<longleftrightarrow> (\<exists>x. m = Inr x \<and> f x = (Inr u, tr'))"
  by (cases m) (simp_all add: bindS_def)

lemma traverse_Inr:
  "traverse f xs = Inr ys \<Longrightarrow> length ys = length xs \<and> (\<forall>i<length xs. f (xs ! i) = Inr (ys ! i))"
proof (induction xs arbitrary: ys)
  case Nil
  then show ?case by simp
next
  case (Cons x xs)
  then obtain y ys' where y: "f x = Inr y" and t: "traverse f xs = Inr ys'" and e: "ys = y # ys'"
    by (auto split: sum.splits)
  from Cons.IH [OF t] y e show ?case
    by (auto simp: nth_Cons split: nat.splits)
qed

lemma apply_rows_Inr:
  assumes "apply_rows f d = Inr vs"
  shows "length vs = length (index d)" and "\<And>i. i < length (index d) \<Longrightarrow> f (row_at d i) = Inr (vs ! i)"
  using traverse_Inr [OF assms [unfolded apply_rows_def]]
  by (simp_all add: rows_of_def)

lemma index_set_col [simp]: "index (set_col c vs d) = index d"
  and geometry_name_set_col [simp]: "geometry_name (set_col c vs d) = geometry_name d"
  and crs_set_col [simp]: "crs (set_col c vs d) = crs d"
  by (simp_all add: set_col_def)

text \<open>\<open>d.at[t, c] = v\<close> keeps the index when a row bears the label, and only then.\<close>

lemma index_set_at:
  "index (set_at ext t c v d) = (if t \<in> set (index d) then index d else index d @ [t])"
  by (simp add: set_at_def)

lemma index_set_at_present [simp]:
  "t \<in> set (index d) \<Longrightarrow> index (set_at ext t c v d) = index d"
  by (simp add: set_at_def)

lemma geometry_name_set_at [simp]: "geometry_name (set_at ext t c v d) = geometry_name d"
  and crs_set_at [simp]: "crs (set_at ext t c v d) = crs d"
  by (simp_all add: set_at_def)

lemma drop_cols_Inr:
  "drop_cols cs d = Inr d' \<Longrightarrow> d' = d\<lparr>cols := filter (\<lambda>(n, vs). n \<notin> set cs) (cols d)\<rparr>"
  by (auto simp: drop_cols_def split: list.splits)

lemma map_of_map_if:
  "map_of (map (\<lambda>(n, old). if n = c then (n, g old) else (n, old)) xs) k =
     (if k = c then map_option g (map_of xs k) else map_of xs k)"
  by (induction xs) auto

lemma map_of_map_values:
  "map_of (map (\<lambda>(n, old). (n, g n old)) xs) k = map_option (g k) (map_of xs k)"
  by (induction xs) auto

lemma map_of_set_col:
  "map_of (cols (set_col c vs d)) k = (if k = c then Some vs else map_of (cols d) k)"
proof (cases "c \<in> set (columns d)")
  case True
  then obtain old where "map_of (cols d) c = Some old"
    by (metis columns_def map_of_eq_None_iff not_Some_eq set_map)
  with True show ?thesis
    using map_of_map_if [of c "\<lambda>_. vs" "cols d" k] by (simp add: set_col_def)
next
  case False
  then have "map_of (cols d) c = None"
    by (simp add: columns_def map_of_eq_None_iff)
  with False show ?thesis
    by (auto simp: set_col_def map_add_def split: option.splits)
qed

lemma map_of_set_at:
  assumes "t \<in> set (index d)"
  shows "map_of (cols (set_at ext t c v d)) k =
     (if k = c then map_option (\<lambda>vs. map (\<lambda>(j, old). if j = t then v else old) (zip (index d) vs))
                      (map_of (cols d) k)
      else map_of (cols d) k)"
  using assms
    map_of_map_if [of c "\<lambda>vs. map (\<lambda>(j, old). if j = t then v else old) (zip (index d) vs)" "cols d" k]
  by (simp add: set_at_def)

lemma map_of_set_at_absent:
  assumes "t \<notin> set (index d)"
  shows "map_of (cols (set_at ext t c v d)) k =
     map_option (\<lambda>vs. vs @ [if k = c then v else na_value ext vs]) (map_of (cols d) k)"
  using assms map_of_map_values [of "\<lambda>n vs. vs @ [if n = c then v else na_value ext vs]" "cols d" k]
  by (simp add: set_at_def)

lemma map_of_filter_keys:
  "map_of (filter (\<lambda>(n, vs). n \<notin> S) xs) k = (if k \<in> S then None else map_of xs k)"
  by (induction xs) auto

lemma map_of_row_at:
  "map_of (snd (row_at d i)) k = map_option (\<lambda>vs. vs ! i) (map_of (cols d) k)"
proof -
  have "map_of (map (\<lambda>(n, vs). (n, vs ! i)) xs) k = map_option (\<lambda>vs. vs ! i) (map_of xs k)" for xs
    by (induction xs) auto
  then show ?thesis by (simp add: row_at_def)
qed

text \<open>The start time on a sorted index: the first label, cut to whole microseconds.\<close>

lemma to_pydatetime_le: "to_pydatetime t \<le> t"
  by (simp add: to_pydatetime_def)

lemma to_pydatetime_whole: "to_pydatetime t = t \<longleftrightarrow> t mod 1000 = 0"
  by (simp add: to_pydatetime_def)

lemma to_pydatetime_mono: "a \<le> b \<Longrightarrow> to_pydatetime a \<le> to_pydatetime b"
proof -
  assume "a \<le> b"
  then have "a div 1000 \<le> b div 1000" by (rule zdiv_mono1) simp
  moreover have "to_pydatetime a = 1000 * (a div 1000)" "to_pydatetime b = 1000 * (b div 1000)"
    by (simp_all add: to_pydatetime_def minus_mod_eq_mult_div)
  ultimately show ?thesis by simp
qed

lemma fold_min_sorted: "sorted (t # ts) \<Longrightarrow> fold min ts t = (t::int)"
  by (induction ts arbitrary: t) (auto simp: min_def)

lemma get_start_time_sorted:
  "sorted (index (df tr)) \<Longrightarrow> get_start_time tr = Inr t0 \<Longrightarrow>
     index (df tr) \<noteq> [] \<and> t0 = to_pydatetime (hd (index (df tr)))"
  by (auto simp: get_start_time_def fold_min_sorted split: list.splits)

lemma sorted_hd_min: "sorted (ts :: int list) \<Longrightarrow> x \<in> set ts \<Longrightarrow> hd ts \<le> x"
  by (cases ts) auto

lemma start_label_sorted:
  assumes "sorted (index (df tr))" "get_start_time tr = Inr t0"
  shows "t0 \<in> set (index (df tr)) \<longleftrightarrow> hd (index (df tr)) mod 1000 = 0"
    and "t0 \<in> set (index (df tr)) \<Longrightarrow> t0 = hd (index (df tr))"
proof -
  from get_start_time_sorted [OF assms] have ne: "index (df tr) \<noteq> []"
    and t0: "t0 = to_pydatetime (hd (index (df tr)))" by simp_all
  show b: "t0 = hd (index (df tr))" if "t0 \<in> set (index (df tr))"
    using sorted_hd_min [OF assms(1) that] to_pydatetime_le [of "hd (index (df tr))"] t0 by simp
  show "t0 \<in> set (index (df tr)) \<longleftrightarrow> hd (index (df tr)) mod 1000 = 0"
  proof
    assume "t0 \<in> set (index (df tr))"
    from b [OF this] t0 show "hd (index (df tr)) mod 1000 = 0"
      by (simp add: to_pydatetime_whole)
  next
    assume "hd (index (df tr)) mod 1000 = 0"
    with t0 have "t0 = hd (index (df tr))" by (simp add: to_pydatetime_whole)
    with ne show "t0 \<in> set (index (df tr))" by simp
  qed
qed

lemma map_of_drop_cols:
  assumes "drop_cols cs d = Inr d'"
  shows "map_of (cols d') k = (if k \<in> set cs then None else map_of (cols d) k)"
proof -
  have "cols d' = filter (\<lambda>(n, vs). n \<notin> set cs) (cols d)"
    using drop_cols_Inr [OF assms] by simp
  then show ?thesis by (simp only: map_of_filter_keys)
qed

lemma cell_at_drop_cols:
  "drop_cols cs d = Inr d' \<Longrightarrow> c \<notin> set cs \<Longrightarrow> cell_at d' c i = cell_at d c i"
  by (simp add: cell_at_def map_of_drop_cols)

lemma index_drop_cols:
  "drop_cols cs d = Inr d' \<Longrightarrow> index d' = index d \<and> geometry_name d' = geometry_name d \<and> crs d' = crs d"
  by (drule drop_cols_Inr) simp

lemma cell_at_set_col_same:
  "cell_at (set_col c vs d) c i = (if i < length vs then Some (vs ! i) else None)"
  by (simp add: cell_at_def map_of_set_col)

lemma cell_at_set_at_hd:
  assumes "map_of (cols d) c = Some vs" "length vs = length (index d)" "index d \<noteq> []"
  shows "cell_at (set_at ext (hd (index d)) c v d) c 0 = Some v"
proof -
  from assms obtain t ts w ws where "index d = t # ts" "vs = w # ws"
    by (cases "index d"; cases vs) auto
  with assms show ?thesis by (simp add: cell_at_def map_of_set_at)
qed

lemma cell_at_set_at_keep:
  assumes "map_of (cols d) c = Some vs" "length vs = length (index d)" "i < length vs" "vs ! i = v"
  shows "cell_at (set_at ext t c v d) c i = Some v"
proof (cases "t \<in> set (index d)")
  case True
  with assms show ?thesis by (simp add: cell_at_def map_of_set_at)
next
  case False
  with assms show ?thesis by (simp add: cell_at_def map_of_set_at_absent nth_append)
qed


text \<open>When no row bears the label, every row keeps its cell and the new row comes last.\<close>

lemma cell_at_set_at_absent:
  assumes "map_of (cols d) c = Some vs" "t \<notin> set (index d)"
  shows "i < length vs \<Longrightarrow> cell_at (set_at ext t c v d) c i = Some (vs ! i)"
    and "cell_at (set_at ext t c v d) c (length vs) = Some v"
  using assms by (simp_all add: cell_at_def map_of_set_at_absent nth_append)

lemma row_get_row_at:
  "row_get (row_at d i) c = Inr v \<longleftrightarrow> (\<exists>vs. map_of (cols d) c = Some vs \<and> vs ! i = v)"
  by (auto simp: row_get_def map_of_row_at split: option.splits)

lemma index_get_df_with_timedelta [simp]:
  "index (get_df_with_timedelta tr name) = index (df tr)"
  "geometry_name (get_df_with_timedelta tr name) = geometry_name (df tr)"
  "crs (get_df_with_timedelta tr name) = crs (df tr)"
  by (simp_all add: get_df_with_timedelta_def Let_def)

lemma length_diff_float [simp]: "length (diff_float vs) = length vs"
  by (cases vs) (simp_all add: diff_float_def)

lemma length_diff_index_seconds [simp]: "length (diff_index_seconds ts) = length ts"
  by (cases ts) (simp_all add: diff_index_seconds_def)

lemma length_diff_index [simp]: "length (diff_index ts) = length ts"
  by (cases ts) (simp_all add: diff_index_def)

section \<open>The methods and the derived frames\<close>

lemma compute_distance_cong:
  "is_latlon tr1 = is_latlon tr2 \<Longrightarrow> geometry_name (df tr1) = geometry_name (df tr2) \<Longrightarrow>
     compute_distance ext tr1 = compute_distance ext tr2"
  by (intro ext) (simp add: compute_distance_def scaled_distance_def get_geom_column_name_def
        cong: if_cong)

lemma compute_speed_cong:
  "is_latlon tr1 = is_latlon tr2 \<Longrightarrow> geometry_name (df tr1) = geometry_name (df tr2) \<Longrightarrow>
     compute_speed ext tr1 = compute_speed ext tr2"
  by (intro ext) (simp add: compute_speed_def scaled_distance_def get_geom_column_name_def
        cong: if_cong)

lemma compute_heading_cong:
  "is_latlon tr1 = is_latlon tr2 \<Longrightarrow> geometry_name (df tr1) = geometry_name (df tr2) \<Longrightarrow>
     compute_heading ext tr1 = compute_heading ext tr2"
  by (intro ext) (simp add: compute_heading_def get_geom_column_name_def cong: if_cong)

lemma get_df_with_distance_cong:
  "is_latlon tr1 = is_latlon tr2 \<Longrightarrow> df tr1 = df tr2 \<Longrightarrow>
     get_df_with_distance ext tr1 = get_df_with_distance ext tr2"
  by (intro ext)
     (simp add: get_df_with_distance_def get_start_time_def compute_distance_cong [of tr1 tr2])

lemma get_df_with_speed_cong:
  "is_latlon tr1 = is_latlon tr2 \<Longrightarrow> df tr1 = df tr2 \<Longrightarrow>
     get_df_with_speed ext tr1 = get_df_with_speed ext tr2"
  by (intro ext)
     (simp add: get_df_with_speed_def get_df_with_timedelta_def get_start_time_def
        compute_speed_cong [of tr1 tr2])

lemma get_df_with_acceleration_cong:
  "is_latlon tr1 = is_latlon tr2 \<Longrightarrow> df tr1 = df tr2 \<Longrightarrow>
     get_df_with_acceleration ext tr1 = get_df_with_acceleration ext tr2"
  by (intro ext)
     (simp add: get_df_with_acceleration_def get_start_time_def get_df_with_speed_cong [of tr1 tr2])

lemma add_distance_Inr:
  assumes "add_distance ext overwrite name units tr = (Inr (), tr')"
  shows "\<exists>conv. get_df_with_distance ext tr conv name = Inr (df tr')"
proof -
  have "get_df_with_distance ext (tr\<lparr>distance_col_name := Some name\<rparr>) = get_df_with_distance ext tr"
    by (rule get_df_with_distance_cong) simp_all
  with assms show ?thesis
    by (auto simp: add_distance_def Let_def bindS_def split: if_splits sum.splits)
qed

lemma add_speed_Inr:
  assumes "add_speed ext overwrite name units tr = (Inr (), tr')"
  shows "\<exists>conv. get_df_with_speed ext tr conv name = Inr (df tr')"
proof -
  have "get_df_with_speed ext (tr\<lparr>speed_col_name := Some name\<rparr>) = get_df_with_speed ext tr"
    by (rule get_df_with_speed_cong) simp_all
  with assms show ?thesis
    by (auto simp: add_speed_def Let_def bindS_def split: if_splits sum.splits)
qed

lemma add_acceleration_Inr:
  assumes "add_acceleration ext overwrite name units tr = (Inr (), tr')"
  shows "\<exists>conv. get_df_with_acceleration ext tr conv name = Inr (df tr')"
proof -
  have "get_df_with_acceleration ext (tr\<lparr>acceleration_col_name := Some name\<rparr>) =
          get_df_with_acceleration ext tr"
    by (rule get_df_with_acceleration_cong) simp_all
  with assms show ?thesis
    by (auto simp: add_acceleration_def Let_def bindS_def split: if_splits sum.splits)
qed

lemma add_timedelta_Inr:
  "add_timedelta overwrite name tr = (Inr (), tr') \<Longrightarrow> df tr' = get_df_with_timedelta tr name"
  by (auto simp: add_timedelta_def Let_def get_df_with_timedelta_def split: if_splits)
section \<open>Overwrite guard\<close>

lemma column_exists_names:
  "\<exists>before after. column_exists name = RuntimeError (before @ name @ after)"
  unfolding column_exists_def by blast

lemma column_exists_angular_names:
  "\<exists>before after. column_exists_angular name = RuntimeError (before @ name @ after)"
  unfolding column_exists_angular_def by blast

text \<open>
  Claim C4. When a column of the given name exists already and \<open>overwrite\<close> is false,
  each of the six \<open>add_*\<close> methods raises the RuntimeError whose message names the
  column, and leaves the data frame of the trajectory as it was: the index, every column
  and every value. (The method has recorded the name in its \<open>*_col_name\<close> attribute
  by then; no column is touched.)
\<close>

theorem overwrite_guard:
  assumes "name \<in> set (columns (df tr))"
  shows "fst (add_distance ext False name units tr) = Inl (column_exists name)
       \<and> df (snd (add_distance ext False name units tr)) = df tr
       \<and> fst (add_speed ext False name units tr) = Inl (column_exists name)
       \<and> df (snd (add_speed ext False name units tr)) = df tr
       \<and> fst (add_acceleration ext False name units tr) = Inl (column_exists name)
       \<and> df (snd (add_acceleration ext False name units tr)) = df tr
       \<and> fst (add_timedelta False name tr) = Inl (column_exists name)
       \<and> df (snd (add_timedelta False name tr)) = df tr
       \<and> fst (add_direction ext False name tr) = Inl (column_exists name)
       \<and> df (snd (add_direction ext False name tr)) = df tr
       \<and> fst (add_angular_difference ext False name tr) = Inl (column_exists_angular name)
       \<and> df (snd (add_angular_difference ext False name tr)) = df tr
       \<and> (\<exists>before after. column_exists name = RuntimeError (before @ name @ after))
       \<and> (\<exists>before after. column_exists_angular name = RuntimeError (before @ name @ after))"
  using assms column_exists_names [of name] column_exists_angular_names [of name]
  by (simp add: add_distance_def add_speed_def add_acceleration_def add_timedelta_def
        add_direction_def add_angular_difference_def Let_def)

theorem overwrite_guard_witness:
  "''distance'' \<in> set (columns (df (snd (add_distance example_externals False ''distance'' [] example_traj))))
   \<and> fst (add_distance example_externals False ''distance'' []
            (snd (add_distance example_externals False ''distance'' [] example_traj)))
       = Inl (column_exists ''distance'')
   \<and> df (snd (add_distance example_externals False ''distance'' []
            (snd (add_distance example_externals False ''distance'' [] example_traj))))
       = df (snd (add_distance example_externals False ''distance'' [] example_traj))"
proof -
  have h: "''distance'' \<in> set (columns (df (snd (add_distance example_externals False ''distance'' [] example_traj))))"
    by (simp add: frame_eval)
  from overwrite_guard [OF h, of example_externals "[]"] h show ?thesis by blast
qed

section \<open>Zero elapsed time\<close>

lemma traverse_Inl_exists:
  assumes "i < length xs" "f (xs ! i) = Inl e"
  shows "\<exists>e'. traverse f xs = Inl e'"
proof (cases "traverse f xs")
  case (Inl e')
  then show ?thesis by blast
next
  case (Inr ys)
  from traverse_Inr [OF this] assms show ?thesis by auto
qed

lemma traverse_Inl_source:
  "traverse f xs = Inl e \<Longrightarrow> \<exists>x\<in>set xs. f x = Inl e"
  by (induction xs) (auto split: sum.splits)

lemma row_get_row_at_eq:
  "row_get (row_at d i) c =
     (case map_of (cols d) c of None \<Rightarrow> Inl (KeyError c) | Some vs \<Rightarrow> Inr (vs ! i))"
  by (simp add: row_get_def map_of_row_at split: option.splits)

lemma nth_shift:
  "j < length vs \<Longrightarrow> shift fill vs ! j = (if j = 0 then fill else vs ! (j - 1))"
  by (cases j) (auto simp: shift_def nth_butlast)

lemma nth_diff_index:
  "0 < j \<Longrightarrow> j < length ts \<Longrightarrow> diff_index ts ! j = Timedelta (ts ! j - ts ! (j - 1))"
  by (cases ts; cases j) (auto simp: diff_index_def)

lemma nth_diff_index_cases:
  "j < length ts \<Longrightarrow> diff_index ts ! j = NaT \<or> (\<exists>n. diff_index ts ! j = Timedelta n)"
  by (cases ts; cases j) (auto simp: diff_index_def)

lemma conversion_for_cong:
  "crs_units tr1 = crs_units tr2 \<Longrightarrow> conversion_for ext tr1 = conversion_for ext tr2"
  by (intro ext) (simp add: conversion_for_def)

text \<open>The rows of the frame on which \<open>add_speed\<close> runs \<open>_compute_speed\<close>.\<close>

lemma speed_frame_rows:
  assumes g: "geometry (df tr) = Inr g"
    and nm: "geometry_name (df tr) \<notin> {''prev_pt'', ''delta_t''}"
  defines "td \<equiv> get_df_with_timedelta tr ''delta_t''"
  defines "temp \<equiv> set_col ''prev_pt'' (shift PyNone g) td"
  shows "geometry td = Inr g"
    and "row_get (row_at temp j) ''prev_pt'' = Inr (shift PyNone g ! j)"
    and "row_get (row_at temp j) (get_geom_column_name tr) = Inr (g ! j)"
    and "row_get (row_at temp j) ''delta_t'' = Inr (diff_index (index (df tr)) ! j)"
    and "index temp = index (df tr)"
proof -
  from g have m: "map_of (cols (df tr)) (geometry_name (df tr)) = Some g"
    by (auto simp: geometry_def split: option.splits)
  with nm show "geometry td = Inr g"
    by (simp add: td_def geometry_def get_df_with_timedelta_def Let_def map_of_set_col)
  show "row_get (row_at temp j) ''prev_pt'' = Inr (shift PyNone g ! j)"
    by (simp add: temp_def row_get_row_at_eq map_of_set_col)
  from m nm show "row_get (row_at temp j) (get_geom_column_name tr) = Inr (g ! j)"
    by (simp add: temp_def td_def row_get_row_at_eq map_of_set_col get_geom_column_name_def
          get_df_with_timedelta_def Let_def)
  show "row_get (row_at temp j) ''delta_t'' = Inr (diff_index (index (df tr)) ! j)"
    by (simp add: temp_def td_def row_get_row_at_eq map_of_set_col get_df_with_timedelta_def Let_def)
  show "index temp = index (df tr)"
    by (simp add: temp_def td_def)
qed

lemma compute_speed_zero_elapsed:
  assumes "row_get r ''prev_pt'' = Inr (Point a b)"
    and "row_get r (get_geom_column_name tr) = Inr (Point c d)"
    and "(a, b) \<noteq> (c, d)"
    and "row_get r ''delta_t'' = Inr (Timedelta 0)"
  shows "\<exists>e. compute_speed ext tr conv r = Inl e"
    and "(if is_latlon tr then measure_distance_geodesic ext (Point a b) (Point c d)
          else measure_distance_euclidean ext (Point a b) (Point c d)) = Inr m
         \<Longrightarrow> compute_speed ext tr conv r = Inl ZeroDivisionError"
  using assms
  by (auto simp: compute_speed_def bindE_def scaled_distance_def py_truediv_def
        split: sum.splits if_splits)

lemma get_df_with_speed_fails:
  assumes "apply_rows (compute_speed ext tr conv)
             (set_col ''prev_pt'' (shift PyNone g) (get_df_with_timedelta tr ''delta_t'')) = Inl e"
    and "geometry (get_df_with_timedelta tr ''delta_t'') = Inr g"
  shows "get_df_with_speed ext tr conv name = Inl e"
  using assms by (simp add: get_df_with_speed_def bindE_def Let_def)

lemma add_speed_fails:
  assumes "\<And>conv. \<exists>e. get_df_with_speed ext tr conv name = Inl e"
  shows "fst (add_speed ext overwrite name units tr) \<noteq> Inr ()"
proof -
  have eq: "get_df_with_speed ext (tr\<lparr>speed_col_name := Some name\<rparr>) = get_df_with_speed ext tr"
    by (rule get_df_with_speed_cong) simp_all
  show ?thesis
  proof (cases "conversion_for ext (tr\<lparr>speed_col_name := Some name\<rparr>) units")
    case (Inl e)
    then show ?thesis by (simp add: add_speed_def Let_def bindS_def)
  next
    case (Inr conv)
    from assms [of conv] obtain e where "get_df_with_speed ext tr conv name = Inl e" ..
    with Inr eq show ?thesis by (simp add: add_speed_def Let_def bindS_def)
  qed
qed

lemma compute_speed_error_class:
  assumes prev: "row_get r ''prev_pt'' = Inr p0" "p0 = PyNone \<or> isinstance_Point p0"
    and cur: "row_get r (get_geom_column_name tr) = Inr p1" "isinstance_Point p1"
    and dt: "row_get r ''delta_t'' = Inr v" "v = NaT \<or> (\<exists>n. v = Timedelta n)"
    and total: "\<And>p q. isinstance_Point p \<Longrightarrow> isinstance_Point q \<Longrightarrow>
               \<exists>m. (if is_latlon tr then measure_distance_geodesic ext p q
                     else measure_distance_euclidean ext p q) = Inr m"
    and err: "compute_speed ext tr conv r = Inl e"
  shows "e = ZeroDivisionError"
proof (cases "isinstance_Point p0")
  case False
  with prev cur err show ?thesis by (simp add: compute_speed_def bindE_def)
next
  case True
  from total [OF True cur(2)] obtain m where
    m: "(if is_latlon tr then measure_distance_geodesic ext p0 p1
         else measure_distance_euclidean ext p0 p1) = Inr m" ..
  from dt(2) have "\<exists>s. total_seconds v = Inr s" by auto
  then obtain s where s: "total_seconds v = Inr s" ..
  have "py_truediv_float x s = Inl e' \<Longrightarrow> e' = ZeroDivisionError" for x e'
    by (cases s) (auto split: if_splits)
  with True prev cur dt(1) m s err show ?thesis
    by (auto simp: compute_speed_def bindE_def scaled_distance_def py_truediv_def
          split: if_splits sum.splits)
qed

text \<open>
  Claim C2. Let two consecutive rows carry the same timestamp and two different Points.
  Then \<open>add_speed\<close> does not return: it raises. When moreover every cell of the geometry
  column is a Point, the distance function answers on Points, the column name is free (or
  overwrite is set) and the units resolve, the exception is ZeroDivisionError, and the
  data frame is left as it was: no 0, NaN or infinity is stored.
\<close>

theorem zero_elapsed_raises:
  assumes g: "geometry (df tr) = Inr g" "length g = length (index (df tr))"
    and nm: "geometry_name (df tr) \<notin> {''prev_pt'', ''delta_t''}"
    and i: "0 < i" "i < length (index (df tr))" "index (df tr) ! i = index (df tr) ! (i - 1)"
    and p: "g ! (i - 1) = Point a b" "g ! i = Point c d" "(a, b) \<noteq> (c, d)"
  shows "fst (add_speed ext overwrite name units tr) \<noteq> Inr ()
       \<and> ((\<forall>j<length g. isinstance_Point (g ! j))
          \<and> (\<forall>p q. isinstance_Point p \<and> isinstance_Point q \<longrightarrow>
                (\<exists>m. (if is_latlon tr then measure_distance_geodesic ext p q
                       else measure_distance_euclidean ext p q) = Inr m))
          \<and> (name \<notin> set (columns (df tr)) \<or> overwrite)
          \<and> (\<exists>conv. conversion_for ext tr units = Inr conv)
          \<longrightarrow> fst (add_speed ext overwrite name units tr) = Inl ZeroDivisionError
            \<and> df (snd (add_speed ext overwrite name units tr)) = df tr)"
proof -
  let ?td = "get_df_with_timedelta tr ''delta_t''"
  let ?temp = "set_col ''prev_pt'' (shift PyNone g) ?td"
  note rows = speed_frame_rows [OF g(1) nm]
  have len: "length (rows_of ?temp) = length (index (df tr))"
    by (simp add: rows_of_def)
  have nth: "rows_of ?temp ! j = row_at ?temp j" if "j < length (index (df tr))" for j
    using that by (simp add: rows_of_def)
  have ri: "row_get (row_at ?temp i) ''prev_pt'' = Inr (Point a b)"
       "row_get (row_at ?temp i) (get_geom_column_name tr) = Inr (Point c d)"
       "row_get (row_at ?temp i) ''delta_t'' = Inr (Timedelta 0)"
    using rows(2-4) [of i] i p g(2) by (simp_all add: nth_shift nth_diff_index)
  have fails: "\<exists>e. get_df_with_speed ext tr conv name = Inl e" for conv
  proof -
    from compute_speed_zero_elapsed(1) [OF ri(1,2) p(3) ri(3)]
    obtain e where e: "compute_speed ext tr conv (rows_of ?temp ! i) = Inl e"
      using nth [OF i(2)] by auto
    have "i < length (rows_of ?temp)" using i(2) len by simp
    from traverse_Inl_exists [of i "rows_of ?temp" "compute_speed ext tr conv" e, OF this e]
    obtain e' where "apply_rows (compute_speed ext tr conv) ?temp = Inl e'"
      by (auto simp: apply_rows_def)
    from get_df_with_speed_fails [OF this rows(1)] show ?thesis by blast
  qed
  have first: "fst (add_speed ext overwrite name units tr) \<noteq> Inr ()"
    by (rule add_speed_fails) (rule fails)
  have second: "fst (add_speed ext overwrite name units tr) = Inl ZeroDivisionError
        \<and> df (snd (add_speed ext overwrite name units tr)) = df tr"
    if pts: "\<forall>j<length g. isinstance_Point (g ! j)"
      and total: "\<forall>p q. isinstance_Point p \<and> isinstance_Point q \<longrightarrow>
                (\<exists>m. (if is_latlon tr then measure_distance_geodesic ext p q
                       else measure_distance_euclidean ext p q) = Inr m)"
      and free: "name \<notin> set (columns (df tr)) \<or> overwrite"
      and cv: "\<exists>conv. conversion_for ext tr units = Inr conv"
  proof -
    from cv obtain conv where conv: "conversion_for ext tr units = Inr conv" ..
    have eq: "get_df_with_speed ext (tr\<lparr>speed_col_name := Some name\<rparr>) = get_df_with_speed ext tr"
      by (rule get_df_with_speed_cong) simp_all
    have ceq: "conversion_for ext (tr\<lparr>speed_col_name := Some name\<rparr>) = conversion_for ext tr"
      by (rule conversion_for_cong) simp
    from fails [of conv] obtain e where e: "get_df_with_speed ext tr conv name = Inl e" ..
    have "apply_rows (compute_speed ext tr conv) ?temp = Inl e"
    proof (cases "apply_rows (compute_speed ext tr conv) ?temp")
      case (Inl e')
      from get_df_with_speed_fails [OF this rows(1), of name] e show ?thesis using Inl by simp
    next
      case (Inr vs)
      from apply_rows_Inr(2) [OF Inr, of i] i(2) rows(5)
      have "compute_speed ext tr conv (row_at ?temp i) = Inr (vs ! i)" by simp
      with compute_speed_zero_elapsed(1) [OF ri(1,2) p(3) ri(3), of ext conv]
      show ?thesis by simp
    qed
    from traverse_Inl_source [OF this [unfolded apply_rows_def]]
    obtain j where j: "j < length (index (df tr))"
      and ej: "compute_speed ext tr conv (row_at ?temp j) = Inl e"
      by (auto simp: rows_of_def)
    have "e = ZeroDivisionError"
    proof (rule compute_speed_error_class [OF rows(2) _ rows(3) _ rows(4) _ _ ej])
      show "shift PyNone g ! j = PyNone \<or> isinstance_Point (shift PyNone g ! j)"
        using j g(2) pts by (simp add: nth_shift)
      show "isinstance_Point (g ! j)" using j g(2) pts by simp
      show "diff_index (index (df tr)) ! j = NaT \<or> (\<exists>n. diff_index (index (df tr)) ! j = Timedelta n)"
        using j by (rule nth_diff_index_cases)
      show "\<exists>m. (if is_latlon tr then measure_distance_geodesic ext p q
                 else measure_distance_euclidean ext p q) = Inr m"
        if "isinstance_Point p" "isinstance_Point q" for p q
        using total that by blast
    qed
    with e conv eq ceq free show ?thesis
      by (auto simp: add_speed_def Let_def bindS_def)
  qed
  from first second show ?thesis by blast
qed

theorem zero_elapsed_raises_witness:
  "geometry (df stalled_traj) = Inr [Point 0 0, Point 3 4]
   \<and> index (df stalled_traj) ! 1 = index (df stalled_traj) ! (1 - 1)
   \<and> fst (add_speed example_externals False ''speed'' [] stalled_traj) = Inl ZeroDivisionError
   \<and> df (snd (add_speed example_externals False ''speed'' [] stalled_traj)) = df stalled_traj"
proof -
  have g: "geometry (df stalled_traj) = Inr [Point 0 0, Point 3 4]"
    and l: "length [Point 0 0, Point 3 4] = length (index (df stalled_traj))"
    and nm: "geometry_name (df stalled_traj) \<notin> {''prev_pt'', ''delta_t''}"
    and i: "0 < (1::nat)" "1 < length (index (df stalled_traj))"
      "index (df stalled_traj) ! 1 = index (df stalled_traj) ! (1 - 1)"
    by (simp_all add: stalled_traj_def example_traj_def geometry_def)
  have p: "[Point 0 0, Point 3 4] ! (1 - 1) = Point 0 0" "[Point 0 0, Point 3 4] ! 1 = Point 3 4"
    "((0::real), (0::real)) \<noteq> (3, 4)"
    by simp_all
  have pts: "\<forall>j<length [Point 0 0, Point 3 4]. isinstance_Point ([Point 0 0, Point 3 4] ! j)"
    by (simp add: less_Suc_eq)
  have total: "\<forall>p q. isinstance_Point p \<and> isinstance_Point q \<longrightarrow>
        (\<exists>m. (if is_latlon stalled_traj then measure_distance_geodesic example_externals p q
               else measure_distance_euclidean example_externals p q) = Inr m)"
  proof (intro allI impI)
    fix p q assume "isinstance_Point p \<and> isinstance_Point q"
    then show "\<exists>m. (if is_latlon stalled_traj then measure_distance_geodesic example_externals p q
               else measure_distance_euclidean example_externals p q) = Inr m"
      by (cases p; cases q)
         (simp_all add: stalled_traj_def example_traj_def example_externals_def example_distance_def)
  qed
  have free: "''speed'' \<notin> set (columns (df stalled_traj)) \<or> False"
    by (simp add: stalled_traj_def example_traj_def columns_def)
  have cv: "\<exists>conv. conversion_for example_externals stalled_traj [] = Inr conv"
    by (simp add: conversion_for_def UNITS_def bindE_def example_externals_def
          example_get_conversion_def)
  from zero_elapsed_raises [OF g l nm i p, of example_externals False "''speed''" "[]"]
    pts total free cv g i(3)
  show ?thesis by blast
qed

section \<open>Text export of a trajectory\<close>

lemma take_keep_prefix:
  assumes "length sep \<le> length r"
  shows "take (length (x @ sep @ r) - length sep) (x @ sep @ r)
           = x @ sep @ take (length r - length sep) r"
proof -
  have "length (x @ sep @ r) - length sep = length x + (length sep + (length r - length sep))"
    using assms by simp
  then show ?thesis by (simp only: take_append length_append) simp
qed

lemma take_concat_sep:
  "take (length (concat (map (\<lambda>s. s @ sep) xs)) - length sep) (concat (map (\<lambda>s. s @ sep) xs))
     = join sep xs"
proof (induction xs)
  case Nil
  show ?case by simp
next
  case (Cons x xs)
  show ?case
  proof (cases xs)
    case Nil
    then show ?thesis by simp
  next
    case (Cons y ys)
    let ?rest = "concat (map (\<lambda>s. s @ sep) xs)"
    have "length sep \<le> length ?rest" using Cons by simp
    from take_keep_prefix [OF this, of x] Cons.IH Cons show ?thesis by simp
  qed
qed

lemma take_concat_comma:
  "take (length (concat (map (\<lambda>s. s @ '', '') xs)) - 2) (concat (map (\<lambda>s. s @ '', '') xs))
     = join '', '' xs"
proof -
  have e: "length '', '' = (2::nat)" by simp
  show ?thesis using take_concat_sep [of "'', ''" xs] unfolding e .
qed

text \<open>
  Claim C9. When every cell of the geometry column is a Point,
  \<open>to_linestringm_wkt\<close> returns "LINESTRING M (" followed by the triples
  "x y unix_seconds" of the samples in sample order, joined by a comma and a space with
  nothing after the last triple, followed by ")".
\<close>

theorem linestringm_wkt:
  assumes "geometry (df tr) = Inr (map (\<lambda>(x, y). Point x y) pts)"
    and "length pts = length (index (df tr))"
  shows "to_linestringm_wkt ext tr
           = Inr (''LINESTRING M ('' @ join '', '' (map2 (triple ext) (index (df tr)) pts) @ '')'')"
proof -
  let ?n = "length (index (df tr))"
  have m: "map_of (cols (df tr)) (geometry_name (df tr)) = Some (map (\<lambda>(x, y). Point x y) pts)"
    using assms(1) by (auto simp: geometry_def split: option.splits)
  have rg: "row_get (row_at (df tr) j) (get_geom_column_name tr) = Inr (Point (fst (pts ! j)) (snd (pts ! j)))"
    if "j < ?n" for j
    using that assms(2) m
    by (simp add: row_get_row_at_eq get_geom_column_name_def case_prod_beta)
  have gen: "wkt_coords ext tr (map (row_at (df tr)) js) coords
               = Inr (coords @ concat (map (\<lambda>j. triple ext (index (df tr) ! j) (pts ! j) @ '', '') js))"
    if "\<forall>j\<in>set js. j < ?n" for js coords
    using that
  proof (induction js arbitrary: coords)
    case Nil
    show ?case by simp
  next
    case (Cons j js)
    then have "j < ?n" and rest: "\<forall>j\<in>set js. j < ?n" by simp_all
    from rg [OF this(1)] Cons.IH [OF rest] show ?case
      by (simp add: bindE_def triple_def row_at_def)
  qed
  have "wkt_coords ext tr (rows_of (df tr)) []
          = Inr (concat (map (\<lambda>j. triple ext (index (df tr) ! j) (pts ! j) @ '', '') [0..<?n]))"
    using gen [of "[0..<?n]" "[]"] by (simp add: rows_of_def)
  moreover have "map (\<lambda>j. triple ext (index (df tr) ! j) (pts ! j)) [0..<?n]
                   = map2 (triple ext) (index (df tr)) pts"
    using assms(2) by (intro nth_equalityI) simp_all
  moreover have "concat (map (\<lambda>j. triple ext (index (df tr) ! j) (pts ! j) @ '', '') [0..<?n])
                   = concat (map (\<lambda>s. s @ '', '') (map (\<lambda>j. triple ext (index (df tr) ! j) (pts ! j)) [0..<?n]))"
    by (simp add: comp_def)
  ultimately show ?thesis
    by (simp only: to_linestringm_wkt_def bindE_def sum.case take_concat_comma)
qed

theorem linestringm_wkt_witness:
  "geometry (df example_traj) = Inr (map (\<lambda>(x, y). Point x y) [(0, 0), (6, 0), (6, 6), (9, 9)])
   \<and> length [(0::real, 0::real), (6, 0), (6, 6), (9, 9)] = length (index (df example_traj))
   \<and> to_linestringm_wkt example_externals example_traj
       = Inr (''LINESTRING M (0.0 0.0 1514808000.0, 6.0 0.0 1514808360.0, ''
              @ ''6.0 6.0 1514808600.0, 9.0 9.0 1514808900.0)'')"
proof -
  have g: "geometry (df example_traj) = Inr (map (\<lambda>(x, y). Point x y) [(0, 0), (6, 0), (6, 6), (9, 9)])"
    and l: "length [(0::real, 0::real), (6, 0), (6, 6), (9, 9)] = length (index (df example_traj))"
    by (simp_all add: example_traj_def example_df_def geometry_def)
  from linestringm_wkt [OF g l, of example_externals] g l show ?thesis
    by (simp add: triple_def example_traj_def example_df_def example_externals_def
          example_format_float_def str_int_def)
qed

section \<open>Degenerate steps\<close>

lemma sorted_wrt_less_hd:
  "sorted_wrt (<) (ts :: int list) \<Longrightarrow> 0 < i \<Longrightarrow> i < length ts \<Longrightarrow> ts ! i \<noteq> hd ts"
  by (cases ts) (auto simp: nth_Cons split: nat.splits)

lemma strict_sorted_imp_sorted: "sorted_wrt (<) (ts :: int list) \<Longrightarrow> sorted ts"
  by (induction ts) auto




text \<open>What a call that returns has done, step by step.\<close>

lemma get_df_with_distance_Inr:
  assumes "get_df_with_distance ext tr conv name = Inr d'"
  obtains g vs t0 where "geometry (df tr) = Inr g"
    and "apply_rows (compute_distance ext tr conv) (set_col ''prev_pt'' (shift PyNone g) (df tr)) = Inr vs"
    and "get_start_time tr = Inr t0"
    and "drop_cols [''prev_pt'']
           (set_at ext t0 name (Float (Fin 0)) (set_col name vs (set_col ''prev_pt'' (shift PyNone g) (df tr)))) = Inr d'"
  using assms by (auto simp: get_df_with_distance_def Let_def bindE_Inr_iff)

lemma get_df_with_speed_Inr:
  assumes "get_df_with_speed ext tr conv name = Inr d'"
  obtains g vs t0 where "geometry (get_df_with_timedelta tr ''delta_t'') = Inr g"
    and "apply_rows (compute_speed ext tr conv)
           (set_col ''prev_pt'' (shift PyNone g) (get_df_with_timedelta tr ''delta_t'')) = Inr vs"
    and "1 < length vs"
    and "get_start_time tr = Inr t0"
    and "drop_cols [''prev_pt'', ''delta_t'']
           (set_at ext t0 name (vs ! 1) (set_col name vs (set_col ''prev_pt'' (shift PyNone g)
              (get_df_with_timedelta tr ''delta_t'')))) = Inr d'"
proof -
  let ?td = "get_df_with_timedelta tr ''delta_t''"
  from assms obtain g vs r v t0 where
    g: "geometry ?td = Inr g"
    and ap: "apply_rows (compute_speed ext tr conv) (set_col ''prev_pt'' (shift PyNone g) ?td) = Inr vs"
    and il: "iloc (set_col name vs (set_col ''prev_pt'' (shift PyNone g) ?td)) 1 = Inr r"
    and rg: "row_get r name = Inr v"
    and st: "get_start_time tr = Inr t0"
    and dr: "drop_cols [''prev_pt'', ''delta_t'']
               (set_at ext t0 name v (set_col name vs (set_col ''prev_pt'' (shift PyNone g) ?td))) = Inr d'"
    by (auto simp: get_df_with_speed_def Let_def bindE_Inr_iff)
  let ?d = "set_col name vs (set_col ''prev_pt'' (shift PyNone g) ?td)"
  have len: "length vs = length (index ?d)" using apply_rows_Inr(1) [OF ap] by simp
  from il have n2: "1 < length (index ?d)" and r: "r = row_at ?d 1"
    by (auto simp: iloc_def split: if_splits)
  from rg r have v: "v = vs ! 1" by (simp add: row_get_row_at map_of_set_col)
  from that [OF g ap _ st] n2 len dr v show ?thesis by simp
qed

lemma add_direction_Inr:
  assumes "add_direction ext overwrite name tr = (Inr (), tr')"
  obtains g vs t0 where "geometry (df tr) = Inr g"
    and "apply_rows (compute_heading ext tr) (set_col ''prev_pt'' (shift PyNone g) (df tr)) = Inr vs"
    and "1 < length vs"
    and "get_start_time tr = Inr t0"
    and "drop_cols [''prev_pt'']
           (set_at ext t0 name (vs ! 1) (set_col name vs (set_col ''prev_pt'' (shift PyNone g) (df tr)))) = Inr (df tr')"
proof -
  have ch: "compute_heading ext (t\<lparr>direction_col_name := x, df := y\<rparr>) = compute_heading ext (t\<lparr>df := y\<rparr>)" for t x y
    by (rule compute_heading_cong) simp_all
  have ch2: "compute_heading ext (t\<lparr>df := set_col c w (df t)\<rparr>) = compute_heading ext t" for t c w
    by (rule compute_heading_cong) simp_all
  from assms obtain g vs r v t0 where
    g: "geometry (df tr) = Inr g"
    and ap: "apply_rows (compute_heading ext tr) (set_col ''prev_pt'' (shift PyNone g) (df tr)) = Inr vs"
    and il: "iloc (set_col name vs (set_col ''prev_pt'' (shift PyNone g) (df tr))) 1 = Inr r"
    and rg: "row_get r name = Inr v"
    and st: "get_start_time tr = Inr t0"
    and dr: "drop_cols [''prev_pt'']
               (set_at ext t0 name v (set_col name vs (set_col ''prev_pt'' (shift PyNone g) (df tr)))) = Inr (df tr')"
    by (auto simp: add_direction_def add_prev_pt_def Let_def bindS_def ch ch2 get_start_time_def
          split: if_splits sum.splits prod.splits)
  let ?d = "set_col name vs (set_col ''prev_pt'' (shift PyNone g) (df tr))"
  have len: "length vs = length (index ?d)" using apply_rows_Inr(1) [OF ap] by simp
  from il have n2: "1 < length (index ?d)" and r: "r = row_at ?d 1"
    by (auto simp: iloc_def split: if_splits)
  from rg r have v: "v = vs ! 1" by (simp add: row_get_row_at map_of_set_col)
  from that [OF g ap _ st] n2 len dr v show ?thesis by simp
qed








section \<open>The index under the methods\<close>

text \<open>
  An \<open>add_*\<close> method touches the index in one place only, where it writes the first row
  at the label \<open>get_start_time()\<close>. When a row bears that label the index is left as it
  was, whether the method returns or raises.
\<close>

lemma get_df_with_distance_index:
  assumes "get_df_with_distance ext tr conv name = Inr d'"
    and "\<And>t0. get_start_time tr = Inr t0 \<Longrightarrow> t0 \<in> set (index (df tr))"
  shows "index d' = index (df tr)"
  using assms by (auto elim!: get_df_with_distance_Inr dest!: drop_cols_Inr)

lemma get_df_with_speed_index:
  assumes "get_df_with_speed ext tr conv name = Inr d'"
    and "\<And>t0. get_start_time tr = Inr t0 \<Longrightarrow> t0 \<in> set (index (df tr))"
  shows "index d' = index (df tr)"
  using assms by (auto elim!: get_df_with_speed_Inr dest!: drop_cols_Inr)

lemma get_df_with_acceleration_Inr:
  assumes "get_df_with_acceleration ext tr conv name = Inr d'"
  obtains sd speed_temp speeds acc t0 where
    "get_df_with_speed ext tr conv ''speed_temp'' = Inr sd"
    and "get_col sd ''speed_temp'' = Inr speed_temp"
    and "traverse as_float speed_temp = Inr speeds"
    and "acc = map2 (\<lambda>a b. Float (mul_scalar (np_div a b) (conv_time2 conv)))
                 (diff_float speeds) (diff_index_seconds (index sd))"
    and "1 < length (index sd)"
    and "get_start_time tr = Inr t0"
    and "drop_cols [''speed_temp''] (set_at ext t0 name (acc ! 1) (set_col name acc sd)) = Inr d'"
proof -
  from assms obtain sd speed_temp speeds r v t0 where
    sp: "get_df_with_speed ext tr conv ''speed_temp'' = Inr sd"
    and col: "get_col sd ''speed_temp'' = Inr speed_temp"
    and fl: "traverse as_float speed_temp = Inr speeds"
    and il: "iloc (set_col name (map2 (\<lambda>a b. Float (mul_scalar (np_div a b) (conv_time2 conv)))
                 (diff_float speeds) (diff_index_seconds (index sd))) sd) 1 = Inr r"
    and rg: "row_get r name = Inr v"
    and st: "get_start_time tr = Inr t0"
    and dr: "drop_cols [''speed_temp'']
               (set_at ext t0 name v (set_col name (map2 (\<lambda>a b. Float (mul_scalar (np_div a b) (conv_time2 conv)))
                 (diff_float speeds) (diff_index_seconds (index sd))) sd)) = Inr d'"
    by (auto simp: get_df_with_acceleration_def Let_def bindE_Inr_iff)
  let ?acc = "map2 (\<lambda>a b. Float (mul_scalar (np_div a b) (conv_time2 conv)))
                 (diff_float speeds) (diff_index_seconds (index sd))"
  from il have n2: "1 < length (index sd)" and r: "r = row_at (set_col name ?acc sd) 1"
    by (auto simp: iloc_def split: if_splits)
  from rg r have v: "v = ?acc ! 1" by (simp add: row_get_row_at map_of_set_col)
  from that [OF sp col fl refl n2 st] dr v show ?thesis by simp
qed

lemma get_df_with_acceleration_index:
  assumes ok: "get_df_with_acceleration ext tr conv name = Inr d'"
    and lab: "\<And>t0. get_start_time tr = Inr t0 \<Longrightarrow> t0 \<in> set (index (df tr))"
  shows "index d' = index (df tr)"
proof -
  from ok obtain sd acc t0 where
    sp: "get_df_with_speed ext tr conv ''speed_temp'' = Inr sd"
    and st: "get_start_time tr = Inr t0"
    and dr: "drop_cols [''speed_temp''] (set_at ext t0 name (acc ! 1) (set_col name acc sd)) = Inr d'"
    by (auto elim!: get_df_with_acceleration_Inr)
  from get_df_with_speed_index [OF sp lab] have "index sd = index (df tr)" by simp
  with drop_cols_Inr [OF dr] lab [OF st] show ?thesis by simp
qed

lemma add_distance_index:
  assumes "\<And>t0. get_start_time tr = Inr t0 \<Longrightarrow> t0 \<in> set (index (df tr))"
  shows "index (df (snd (add_distance ext overwrite name units tr))) = index (df tr)"
proof -
  let ?tr = "tr\<lparr>distance_col_name := Some name\<rparr>"
  have lab: "get_start_time ?tr = Inr t0 \<Longrightarrow> t0 \<in> set (index (df ?tr))" for t0
    using assms [of t0] by (simp add: get_start_time_def)
  show ?thesis
    by (auto simp: add_distance_def Let_def bindS_def split: sum.splits
          dest!: get_df_with_distance_index [OF _ lab])
qed

lemma add_speed_index:
  assumes "\<And>t0. get_start_time tr = Inr t0 \<Longrightarrow> t0 \<in> set (index (df tr))"
  shows "index (df (snd (add_speed ext overwrite name units tr))) = index (df tr)"
proof -
  let ?tr = "tr\<lparr>speed_col_name := Some name\<rparr>"
  have lab: "get_start_time ?tr = Inr t0 \<Longrightarrow> t0 \<in> set (index (df ?tr))" for t0
    using assms [of t0] by (simp add: get_start_time_def)
  show ?thesis
    by (auto simp: add_speed_def Let_def bindS_def split: sum.splits
          dest!: get_df_with_speed_index [OF _ lab])
qed

lemma add_acceleration_index:
  assumes "\<And>t0. get_start_time tr = Inr t0 \<Longrightarrow> t0 \<in> set (index (df tr))"
  shows "index (df (snd (add_acceleration ext overwrite name units tr))) = index (df tr)"
proof -
  let ?tr = "tr\<lparr>acceleration_col_name := Some name\<rparr>"
  have lab: "get_start_time ?tr = Inr t0 \<Longrightarrow> t0 \<in> set (index (df ?tr))" for t0
    using assms [of t0] by (simp add: get_start_time_def)
  show ?thesis
    by (auto simp: add_acceleration_def Let_def bindS_def split: sum.splits
          dest!: get_df_with_acceleration_index [OF _ lab])
qed

lemma add_timedelta_index:
  "index (df (snd (add_timedelta overwrite name tr))) = index (df tr)"
  by (simp add: add_timedelta_def Let_def)

lemma add_direction_index:
  assumes "\<And>t0. get_start_time tr = Inr t0 \<Longrightarrow> t0 \<in> set (index (df tr))"
  shows "index (df (snd (add_direction ext overwrite name tr))) = index (df tr)"
proof -
  have st: "get_start_time (t\<lparr>df := d\<rparr>) = Inr t0 \<Longrightarrow> index d = index (df tr) \<Longrightarrow>
              t0 \<in> set (index (df tr))" for t :: trajectory and d t0
    using assms [of t0] by (simp add: get_start_time_def)
  show ?thesis
    by (auto simp: add_direction_def add_prev_pt_def Let_def bindS_def
          split: sum.splits prod.splits if_splits dest!: drop_cols_Inr st)
qed

lemma add_angular_difference_index:
  assumes lab: "\<And>t0. get_start_time tr = Inr t0 \<Longrightarrow> t0 \<in> set (index (df tr))"
  shows "index (df (snd (add_angular_difference ext overwrite name tr))) = index (df tr)"
proof -
  let ?tr = "tr\<lparr>angular_difference_col_name := Some name\<rparr>"
  have lab': "get_start_time ?tr = Inr t0 \<Longrightarrow> t0 \<in> set (index (df ?tr))" for t0
    using lab [of t0] by (simp add: get_start_time_def)
  have d: "index (df (snd (add_direction ext False DIRECTION_COL_NAME ?tr))) = index (df tr)"
    using add_direction_index [of ?tr ext False DIRECTION_COL_NAME, OF lab'] by simp
  have st: "get_start_time (t\<lparr>df := d\<rparr>) = Inr t0 \<Longrightarrow> index d = index (df tr) \<Longrightarrow>
              t0 \<in> set (index (df tr))" for t :: trajectory and d t0
    using lab [of t0] by (simp add: get_start_time_def)
  have st': "get_start_time t = Inr t0 \<Longrightarrow> index (df t) = index (df tr) \<Longrightarrow>
              t0 \<in> set (index (df tr))" for t :: trajectory and t0
    using lab [of t0] by (simp add: get_start_time_def)
  show ?thesis
  proof (cases "add_direction ext False DIRECTION_COL_NAME ?tr")
    case (Pair r tr1)
    with d have "index (df tr1) = index (df tr)" by simp
    with Pair show ?thesis
      by (auto simp: add_angular_difference_def Let_def bindS_def
            split: sum.splits if_splits dest!: drop_cols_Inr st st')
  qed
qed

section \<open>First-row policy\<close>

lemma start_label_whole:
  assumes "sorted (index (df tr))" "get_start_time tr = Inr t0" "hd (index (df tr)) mod 1000 = 0"
  shows "index (df tr) \<noteq> []" and "t0 = hd (index (df tr))" and "t0 \<in> set (index (df tr))"
proof -
  from get_start_time_sorted [OF assms(1,2)] assms(3)
  show "index (df tr) \<noteq> []" and "t0 = hd (index (df tr))"
    by (simp_all add: to_pydatetime_whole)
  then show "t0 \<in> set (index (df tr))" by simp
qed

lemma nth_diff_float:
  "0 < j \<Longrightarrow> j < length vs \<Longrightarrow> diff_float vs ! j = np_sub (vs ! j) (vs ! (j - 1))"
  by (cases vs; cases j) (auto simp: diff_float_def)

lemma nth_diff_index_seconds:
  "0 < j \<Longrightarrow> j < length ts \<Longrightarrow>
     diff_index_seconds ts ! j = Fin (real_of_int (ts ! j - ts ! (j - 1)) / 1000000000)"
  by (cases ts; cases j) (auto simp: diff_index_seconds_def)

lemma get_df_with_distance_first:
  assumes ok: "get_df_with_distance ext tr conv name = Inr d'"
    and srt: "sorted (index (df tr))" and whole: "hd (index (df tr)) mod 1000 = 0"
    and nm: "name \<noteq> ''prev_pt''"
  shows "cell_at d' name 0 = Some (Float (Fin 0))"
proof -
  from ok obtain g vs t0 where
    ap: "apply_rows (compute_distance ext tr conv) (set_col ''prev_pt'' (shift PyNone g) (df tr)) = Inr vs"
    and st: "get_start_time tr = Inr t0"
    and dr: "drop_cols [''prev_pt'']
               (set_at ext t0 name (Float (Fin 0)) (set_col name vs (set_col ''prev_pt'' (shift PyNone g) (df tr)))) = Inr d'"
    by (auto elim!: get_df_with_distance_Inr)
  let ?d = "set_col name vs (set_col ''prev_pt'' (shift PyNone g) (df tr))"
  from start_label_whole [OF srt st whole] have ne: "index ?d \<noteq> []" and t0: "t0 = hd (index ?d)"
    by simp_all
  have len: "length vs = length (index ?d)" using apply_rows_Inr(1) [OF ap] by simp
  have "cell_at (set_at ext t0 name (Float (Fin 0)) ?d) name 0 = Some (Float (Fin 0))"
    unfolding t0 by (rule cell_at_set_at_hd [OF _ len ne]) (simp add: map_of_set_col)
  with cell_at_drop_cols [OF dr, of name 0] nm show ?thesis by simp
qed

lemma get_df_with_timedelta_first:
  assumes "index (df tr) \<noteq> []"
  shows "cell_at (get_df_with_timedelta tr name) name 0 = Some NaT"
  using assms
  by (cases "index (df tr)") (simp_all add: get_df_with_timedelta_def Let_def cell_at_set_col_same diff_index_def)

lemma get_df_with_speed_first:
  assumes ok: "get_df_with_speed ext tr conv name = Inr d'"
    and srt: "sorted (index (df tr))" and whole: "hd (index (df tr)) mod 1000 = 0"
    and nm: "name \<noteq> ''prev_pt''" "name \<noteq> ''delta_t''"
  shows "\<exists>g vs. geometry (get_df_with_timedelta tr ''delta_t'') = Inr g \<and>
           apply_rows (compute_speed ext tr conv)
             (set_col ''prev_pt'' (shift PyNone g) (get_df_with_timedelta tr ''delta_t'')) = Inr vs \<and>
           1 < length vs \<and>
           cell_at d' name 0 = Some (vs ! 1) \<and> cell_at d' name 1 = Some (vs ! 1)"
proof -
  let ?td = "get_df_with_timedelta tr ''delta_t''"
  from ok obtain g vs t0 where
    g: "geometry ?td = Inr g"
    and ap: "apply_rows (compute_speed ext tr conv) (set_col ''prev_pt'' (shift PyNone g) ?td) = Inr vs"
    and n2: "1 < length vs"
    and st: "get_start_time tr = Inr t0"
    and dr: "drop_cols [''prev_pt'', ''delta_t'']
               (set_at ext t0 name (vs ! 1) (set_col name vs (set_col ''prev_pt'' (shift PyNone g) ?td))) = Inr d'"
    by (auto elim!: get_df_with_speed_Inr)
  let ?d = "set_col name vs (set_col ''prev_pt'' (shift PyNone g) ?td)"
  from start_label_whole [OF srt st whole] have ne: "index ?d \<noteq> []" and t0: "t0 = hd (index ?d)"
    by simp_all
  have len: "length vs = length (index ?d)" using apply_rows_Inr(1) [OF ap] by simp
  have m: "map_of (cols ?d) name = Some vs" by (simp add: map_of_set_col)
  have "cell_at (set_at ext t0 name (vs ! 1) ?d) name 0 = Some (vs ! 1)"
    unfolding t0 by (rule cell_at_set_at_hd [OF m len ne])
  moreover have "cell_at (set_at ext t0 name (vs ! 1) ?d) name 1 = Some (vs ! 1)"
    by (rule cell_at_set_at_keep [OF m len]) (use n2 in simp_all)
  ultimately show ?thesis
    using cell_at_drop_cols [OF dr, of name] nm g ap n2 by auto
qed

lemma get_df_with_speed_column:
  assumes ok: "get_df_with_speed ext tr conv name = Inr d'"
    and lab: "\<And>t0. get_start_time tr = Inr t0 \<Longrightarrow> t0 \<in> set (index (df tr))"
    and nm: "name \<noteq> ''prev_pt''" "name \<noteq> ''delta_t''"
  shows "\<exists>col. map_of (cols d') name = Some col \<and> length col = length (index (df tr))"
proof -
  let ?td = "get_df_with_timedelta tr ''delta_t''"
  from ok obtain g vs t0 where
    ap: "apply_rows (compute_speed ext tr conv) (set_col ''prev_pt'' (shift PyNone g) ?td) = Inr vs"
    and st: "get_start_time tr = Inr t0"
    and dr: "drop_cols [''prev_pt'', ''delta_t'']
               (set_at ext t0 name (vs ! 1) (set_col name vs (set_col ''prev_pt'' (shift PyNone g) ?td))) = Inr d'"
    by (auto elim!: get_df_with_speed_Inr)
  have len: "length vs = length (index (df tr))" using apply_rows_Inr(1) [OF ap] by simp
  from lab [OF st] have "t0 \<in> set (index (set_col name vs (set_col ''prev_pt'' (shift PyNone g) ?td)))"
    by simp
  with nm len show ?thesis
    by (simp add: map_of_drop_cols [OF dr] map_of_set_at map_of_set_col)
qed

lemma get_df_with_acceleration_first:
  assumes ok: "get_df_with_acceleration ext tr conv name = Inr d'"
    and srt: "sorted (index (df tr))" and whole: "hd (index (df tr)) mod 1000 = 0"
    and nm: "name \<noteq> ''speed_temp''"
  shows "\<exists>sd speed_temp speeds.
           get_df_with_speed ext tr conv ''speed_temp'' = Inr sd
         \<and> get_col sd ''speed_temp'' = Inr speed_temp
         \<and> traverse as_float speed_temp = Inr speeds
         \<and> cell_at d' name 0 = Some (Float (mul_scalar
               (np_div (np_sub (speeds ! 1) (speeds ! 0))
                  (Fin (real_of_int (index (df tr) ! 1 - index (df tr) ! 0) / 1000000000)))
               (conv_time2 conv)))
         \<and> cell_at d' name 1 = cell_at d' name 0"
proof -
  from ok obtain sd speed_temp speeds acc t0 where
    sp: "get_df_with_speed ext tr conv ''speed_temp'' = Inr sd"
    and col: "get_col sd ''speed_temp'' = Inr speed_temp"
    and fl: "traverse as_float speed_temp = Inr speeds"
    and acc: "acc = map2 (\<lambda>a b. Float (mul_scalar (np_div a b) (conv_time2 conv)))
                 (diff_float speeds) (diff_index_seconds (index sd))"
    and n2: "1 < length (index sd)"
    and st: "get_start_time tr = Inr t0"
    and dr: "drop_cols [''speed_temp''] (set_at ext t0 name (acc ! 1) (set_col name acc sd)) = Inr d'"
    by (auto elim!: get_df_with_acceleration_Inr)
  let ?d = "set_col name acc sd"
  have lab: "get_start_time tr = Inr t \<Longrightarrow> t \<in> set (index (df tr))" for t
    using start_label_whole(3) [OF srt _ whole] by simp
  have idx: "index sd = index (df tr)"
    by (rule get_df_with_speed_index [OF sp lab])
  from get_df_with_speed_column [OF sp lab] col have "length speed_temp = length (index (df tr))"
    by (auto simp: get_col_def)
  with traverse_Inr [OF fl] have ls: "length speeds = length (index (df tr))" by simp
  then have len: "length acc = length (index ?d)" by (simp add: acc idx)
  from start_label_whole [OF srt st whole] idx have ne: "index ?d \<noteq> []" and t0: "t0 = hd (index ?d)"
    by simp_all
  have m: "map_of (cols ?d) name = Some acc" by (simp add: map_of_set_col)
  from n2 idx ls have a1: "acc ! 1 = Float (mul_scalar
               (np_div (np_sub (speeds ! 1) (speeds ! 0))
                  (Fin (real_of_int (index (df tr) ! 1 - index (df tr) ! 0) / 1000000000)))
               (conv_time2 conv))"
    by (simp add: acc nth_diff_float nth_diff_index_seconds)
  have "cell_at (set_at ext t0 name (acc ! 1) ?d) name 0 = Some (acc ! 1)"
    unfolding t0 by (rule cell_at_set_at_hd [OF m len ne])
  moreover have "cell_at (set_at ext t0 name (acc ! 1) ?d) name 1 = Some (acc ! 1)"
    by (rule cell_at_set_at_keep [OF m len]) (use n2 len in simp_all)
  ultimately show ?thesis
    using cell_at_drop_cols [OF dr, of name] nm sp col fl a1 by auto
qed

lemma add_direction_first:
  assumes ok: "add_direction ext overwrite name tr = (Inr (), tr')"
    and srt: "sorted (index (df tr))" and whole: "hd (index (df tr)) mod 1000 = 0"
    and nm: "name \<noteq> ''prev_pt''"
  shows "\<exists>g vs. geometry (df tr) = Inr g \<and>
           apply_rows (compute_heading ext tr) (set_col ''prev_pt'' (shift PyNone g) (df tr)) = Inr vs \<and>
           1 < length vs \<and>
           cell_at (df tr') name 0 = Some (vs ! 1) \<and> cell_at (df tr') name 1 = Some (vs ! 1)"
proof -
  from ok obtain g vs t0 where
    g: "geometry (df tr) = Inr g"
    and ap: "apply_rows (compute_heading ext tr) (set_col ''prev_pt'' (shift PyNone g) (df tr)) = Inr vs"
    and n2: "1 < length vs"
    and st: "get_start_time tr = Inr t0"
    and dr: "drop_cols [''prev_pt'']
               (set_at ext t0 name (vs ! 1) (set_col name vs (set_col ''prev_pt'' (shift PyNone g) (df tr)))) = Inr (df tr')"
    by (auto elim!: add_direction_Inr)
  let ?d = "set_col name vs (set_col ''prev_pt'' (shift PyNone g) (df tr))"
  from start_label_whole [OF srt st whole] have ne: "index ?d \<noteq> []" and t0: "t0 = hd (index ?d)"
    by simp_all
  have len: "length vs = length (index ?d)" using apply_rows_Inr(1) [OF ap] by simp
  have m: "map_of (cols ?d) name = Some vs" by (simp add: map_of_set_col)
  have "cell_at (set_at ext t0 name (vs ! 1) ?d) name 0 = Some (vs ! 1)"
    unfolding t0 by (rule cell_at_set_at_hd [OF m len ne])
  moreover have "cell_at (set_at ext t0 name (vs ! 1) ?d) name 1 = Some (vs ! 1)"
    by (rule cell_at_set_at_keep [OF m len]) (use n2 in simp_all)
  ultimately show ?thesis
    using cell_at_drop_cols [OF dr, of name] nm g ap n2 by auto
qed

text \<open>
  The policy on a trajectory with at least two samples, whose index is sorted as the
  constructor leaves it, and whose first timestamp is a whole number of microseconds, so
  that a row bears the label \<open>get_start_time()\<close>. Every successful call obeys it: after
  \<open>add_distance\<close> the first row of the new column is exactly 0.0; after
  \<open>add_timedelta\<close> it is the empty duration NaT; after \<open>add_speed\<close> and
  \<open>add_direction\<close> the first row holds the value that the row function computed for
  the second row, and the second row holds it too; after \<open>add_acceleration\<close> both rows
  hold the acceleration computed for the second row from the speeds and the timestamps of
  the first two rows. The column must not bear the name of a temporary column, which the
  method drops before it returns.
\<close>

lemma first_row_policy_whole_microseconds:
  assumes "sorted (index (df tr))" and "2 \<le> length (index (df tr))"
    and "hd (index (df tr)) mod 1000 = 0"
  shows "(fst (add_distance ext overwrite name units tr) = Inr () \<and> name \<noteq> ''prev_pt'' \<longrightarrow>
            cell_at (df (snd (add_distance ext overwrite name units tr))) name 0 = Some (Float (Fin 0)))
       \<and> (fst (add_timedelta overwrite name tr) = Inr () \<longrightarrow>
            cell_at (df (snd (add_timedelta overwrite name tr))) name 0 = Some NaT)
       \<and> (fst (add_speed ext overwrite name units tr) = Inr () \<and> name \<notin> {''prev_pt'', ''delta_t''} \<longrightarrow>
            (\<exists>conv g v.
                geometry (get_df_with_timedelta tr ''delta_t'') = Inr g
              \<and> compute_speed ext tr conv
                  (row_at (set_col ''prev_pt'' (shift PyNone g) (get_df_with_timedelta tr ''delta_t'')) 1)
                  = Inr v
              \<and> cell_at (df (snd (add_speed ext overwrite name units tr))) name 0 = Some v
              \<and> cell_at (df (snd (add_speed ext overwrite name units tr))) name 1 = Some v))
       \<and> (fst (add_acceleration ext overwrite name units tr) = Inr () \<and> name \<noteq> ''speed_temp'' \<longrightarrow>
            (\<exists>conv sd speed_temp speeds.
                get_df_with_speed ext tr conv ''speed_temp'' = Inr sd
              \<and> get_col sd ''speed_temp'' = Inr speed_temp
              \<and> traverse as_float speed_temp = Inr speeds
              \<and> cell_at (df (snd (add_acceleration ext overwrite name units tr))) name 0
                  = Some (Float (mul_scalar
                       (np_div (np_sub (speeds ! 1) (speeds ! 0))
                          (Fin (real_of_int (index (df tr) ! 1 - index (df tr) ! 0) / 1000000000)))
                       (conv_time2 conv)))
              \<and> cell_at (df (snd (add_acceleration ext overwrite name units tr))) name 1
                  = cell_at (df (snd (add_acceleration ext overwrite name units tr))) name 0))
       \<and> (fst (add_direction ext overwrite name tr) = Inr () \<and> name \<noteq> ''prev_pt'' \<longrightarrow>
            (\<exists>g v.
                geometry (df tr) = Inr g
              \<and> compute_heading ext tr (row_at (set_col ''prev_pt'' (shift PyNone g) (df tr)) 1) = Inr v
              \<and> cell_at (df (snd (add_direction ext overwrite name tr))) name 0 = Some v
              \<and> cell_at (df (snd (add_direction ext overwrite name tr))) name 1 = Some v))"
proof (intro conjI impI)
  assume a: "fst (add_distance ext overwrite name units tr) = Inr () \<and> name \<noteq> ''prev_pt''"
  then have "add_distance ext overwrite name units tr = (Inr (), snd (add_distance ext overwrite name units tr))"
    by (metis prod.collapse)
  from add_distance_Inr [OF this] a assms(1,3)
  show "cell_at (df (snd (add_distance ext overwrite name units tr))) name 0 = Some (Float (Fin 0))"
    by (auto dest: get_df_with_distance_first)
next
  assume "fst (add_timedelta overwrite name tr) = Inr ()"
  then have "add_timedelta overwrite name tr = (Inr (), snd (add_timedelta overwrite name tr))"
    by (metis prod.collapse)
  from add_timedelta_Inr [OF this] assms(2)
  show "cell_at (df (snd (add_timedelta overwrite name tr))) name 0 = Some NaT"
    by (auto intro: get_df_with_timedelta_first)
next
  let ?r = "add_speed ext overwrite name units tr"
  let ?td = "get_df_with_timedelta tr ''delta_t''"
  assume a: "fst ?r = Inr () \<and> name \<notin> {''prev_pt'', ''delta_t''}"
  then have "?r = (Inr (), snd ?r)"
    by (metis prod.collapse)
  from add_speed_Inr [OF this] obtain conv where
    "get_df_with_speed ext tr conv name = Inr (df (snd ?r))" ..
  from get_df_with_speed_first [OF this assms(1,3)] a obtain g vs where
    g: "geometry ?td = Inr g"
    and ap: "apply_rows (compute_speed ext tr conv) (set_col ''prev_pt'' (shift PyNone g) ?td) = Inr vs"
    and n: "1 < length vs"
    and c: "cell_at (df (snd ?r)) name 0 = Some (vs ! 1)" "cell_at (df (snd ?r)) name 1 = Some (vs ! 1)"
    by auto
  from apply_rows_Inr [OF ap] n
  have "compute_speed ext tr conv (row_at (set_col ''prev_pt'' (shift PyNone g) ?td) 1) = Inr (vs ! 1)"
    by simp
  with g c
  show "\<exists>conv g v. geometry ?td = Inr g
          \<and> compute_speed ext tr conv (row_at (set_col ''prev_pt'' (shift PyNone g) ?td) 1) = Inr v
          \<and> cell_at (df (snd ?r)) name 0 = Some v \<and> cell_at (df (snd ?r)) name 1 = Some v"
    by blast
next
  let ?r = "add_acceleration ext overwrite name units tr"
  assume a: "fst ?r = Inr () \<and> name \<noteq> ''speed_temp''"
  then have "?r = (Inr (), snd ?r)"
    by (metis prod.collapse)
  from add_acceleration_Inr [OF this] obtain conv where
    "get_df_with_acceleration ext tr conv name = Inr (df (snd ?r))" ..
  from get_df_with_acceleration_first [OF this assms(1,3)] a
  show "\<exists>conv sd speed_temp speeds.
                get_df_with_speed ext tr conv ''speed_temp'' = Inr sd
              \<and> get_col sd ''speed_temp'' = Inr speed_temp
              \<and> traverse as_float speed_temp = Inr speeds
              \<and> cell_at (df (snd ?r)) name 0
                  = Some (Float (mul_scalar
                       (np_div (np_sub (speeds ! 1) (speeds ! 0))
                          (Fin (real_of_int (index (df tr) ! 1 - index (df tr) ! 0) / 1000000000)))
                       (conv_time2 conv)))
              \<and> cell_at (df (snd ?r)) name 1 = cell_at (df (snd ?r)) name 0"
    by blast
next
  let ?r = "add_direction ext overwrite name tr"
  assume a: "fst ?r = Inr () \<and> name \<noteq> ''prev_pt''"
  then have "?r = (Inr (), snd ?r)"
    by (metis prod.collapse)
  from add_direction_first [OF this assms(1,3)] a obtain g vs where
    g: "geometry (df tr) = Inr g"
    and ap: "apply_rows (compute_heading ext tr) (set_col ''prev_pt'' (shift PyNone g) (df tr)) = Inr vs"
    and n: "1 < length vs"
    and c: "cell_at (df (snd ?r)) name 0 = Some (vs ! 1)" "cell_at (df (snd ?r)) name 1 = Some (vs ! 1)"
    by auto
  from apply_rows_Inr [OF ap] n
  have "compute_heading ext tr (row_at (set_col ''prev_pt'' (shift PyNone g) (df tr)) 1) = Inr (vs ! 1)"
    by simp
  with g c
  show "\<exists>g v. geometry (df tr) = Inr g
          \<and> compute_heading ext tr (row_at (set_col ''prev_pt'' (shift PyNone g) (df tr)) 1) = Inr v
          \<and> cell_at (df (snd ?r)) name 0 = Some v \<and> cell_at (df (snd ?r)) name 1 = Some v"
    by blast
qed

text \<open>
  Claim C1, at a trajectory whose first timestamp is not a whole number of microseconds.
  \<open>precise_traj\<close> starts 1500 nanoseconds after the epoch; \<open>get_start_time()\<close> is that
  time cut to 1000 nanoseconds, a label that no row bears. The statement that is to set
  the first row therefore appends a row instead and leaves the first row as the row
  function computed it for a sample without predecessor. After \<open>add_speed\<close> the first
  row holds 0.0 and the second 1/20; after \<open>add_direction\<close> they hold 0.0 and 90.0;
  after \<open>add_acceleration\<close> nan and 1/1200. In each case the value of the second row is
  found in a fourth row, labelled with the cut start time. The first row of the distance
  and of the timedelta is 0.0 and NaT all the same. On the trajectory of the docstring,
  whose timestamps are whole seconds, the first two rows of the speed agree.
\<close>

theorem first_row_policy_sub_microsecond:
  "index (df precise_traj) = [1500, 60000001500, 120000001500]
   \<and> get_start_time precise_traj = Inr 1000
   \<and> add_speed example_externals False ''speed'' [] precise_traj
       = (Inr (), precise_traj
            \<lparr>df := \<lparr>index = [1500, 60000001500, 120000001500, 1000],
                     cols = [(''geometry'', [Point 0 0, Point 3 0, Point 3 4, PyNone]),
                             (''speed'', [Float (Fin 0), Float (Fin (1 / 20)), Float (Fin (1 / 15)),
                                          Float (Fin (1 / 20))])],
                     geometry_name = ''geometry'', crs = None\<rparr>,
              speed_col_name := Some ''speed''\<rparr>)
   \<and> cell_at (df (snd (add_speed example_externals False ''speed'' [] precise_traj))) ''speed'' 0
       = Some (Float (Fin 0))
   \<and> cell_at (df (snd (add_speed example_externals False ''speed'' [] precise_traj))) ''speed'' 1
       = Some (Float (Fin (1 / 20)))
   \<and> fst (add_direction example_externals False ''direction'' precise_traj) = Inr ()
   \<and> df (snd (add_direction example_externals False ''direction'' precise_traj))
       = \<lparr>index = [1500, 60000001500, 120000001500, 1000],
          cols = [(''geometry'', [Point 0 0, Point 3 0, Point 3 4, PyNone]),
                  (''direction'', [Float (Fin 0), Float (Fin 90), Float (Fin 0), Float (Fin 90)])],
          geometry_name = ''geometry'', crs = None\<rparr>
   \<and> fst (add_acceleration example_externals False ''acceleration'' [] precise_traj) = Inr ()
   \<and> df (snd (add_acceleration example_externals False ''acceleration'' [] precise_traj))
       = \<lparr>index = [1500, 60000001500, 120000001500, 1000],
          cols = [(''geometry'', [Point 0 0, Point 3 0, Point 3 4, PyNone]),
                  (''acceleration'', [Float NaN, Float (Fin (1 / 1200)), Float (Fin (1 / 3600)),
                                      Float (Fin (1 / 1200))])],
          geometry_name = ''geometry'', crs = None\<rparr>
   \<and> cell_at (df (snd (add_distance example_externals False ''distance'' [] precise_traj)))
        ''distance'' 0 = Some (Float (Fin 0))
   \<and> cell_at (df (snd (add_timedelta False ''timedelta'' precise_traj))) ''timedelta'' 0 = Some NaT
   \<and> cell_at (df (snd (add_speed example_externals False ''speed'' [] example_traj))) ''speed'' 0
       = Some (Float (Fin (1 / 60)))
   \<and> cell_at (df (snd (add_speed example_externals False ''speed'' [] example_traj))) ''speed'' 1
       = Some (Float (Fin (1 / 60)))"
  by (simp add: frame_eval precise_traj_def cell_at_def)

section \<open>Rows at a time\<close>

lemma drop_duplicates_distinct: "distinct xs \<Longrightarrow> drop_duplicates xs = xs"
proof (induction xs)
  case Nil
  show ?case by simp
next
  case (Cons x xs)
  then have "filter (\<lambda>y. y \<noteq> x) xs = xs" by (auto intro: filter_True)
  with Cons show ?case by simp
qed

lemma strict_sorted_distinct: "sorted_wrt (<) (ts :: int list) \<Longrightarrow> distinct ts"
  by (induction ts) auto

lemma sorted_index_values:
  assumes "sorted_wrt (<) (ts :: int list)"
  shows "drop_duplicates (sort ts) = ts"
  using assms
  by (simp add: strict_sorted_imp_sorted sorted_sort_id drop_duplicates_distinct strict_sorted_distinct)

lemma fold_max_sorted: "sorted (t # ts) \<Longrightarrow> fold max ts t = last (t # (ts :: int list))"
proof (induction ts arbitrary: t)
  case Nil
  show ?case by simp
next
  case (Cons a ts)
  then have "max a t = a" by simp
  with Cons show ?case by simp
qed

lemma get_times_sorted:
  assumes "sorted_wrt (<) (index (df tr))" "index (df tr) \<noteq> []"
  shows "get_start_time tr = Inr (to_pydatetime (hd (index (df tr))))"
    and "get_end_time tr = Inr (to_pydatetime (last (index (df tr))))"
  using assms strict_sorted_imp_sorted [OF assms(1)]
  by (cases "index (df tr)"; simp add: get_start_time_def get_end_time_def fold_min_sorted fold_max_sorted)+

lemma sorted_hd_le: "sorted (ts :: int list) \<Longrightarrow> x \<in> set ts \<Longrightarrow> hd ts \<le> x"
  by (cases ts) auto

lemma sorted_le_last: "sorted (ts :: int list) \<Longrightarrow> x \<in> set ts \<Longrightarrow> x \<le> last ts"
  by (induction ts) (auto split: if_splits)

lemma loc_absent:
  "t \<notin> set (index d) \<Longrightarrow> loc d t = Inl (KeyError ''timestamp'')"
proof -
  assume "t \<notin> set (index d)"
  then have "filter (\<lambda>i. index d ! i = t) [0..<length (index d)] = []"
    by (auto simp: filter_empty_conv)
  then show ?thesis by (simp add: loc_def)
qed

lemma filter_eq_upt: "j < n \<Longrightarrow> filter (\<lambda>i. i = j) [0..<n] = [j]"
proof (induction n)
  case 0
  then show ?case by simp
next
  case (Suc n)
  show ?case
  proof (cases "j = n")
    case True
    then have "filter (\<lambda>i. i = j) [0..<n] = []" by (auto simp: filter_empty_conv)
    with True show ?thesis by simp
  next
    case False
    with Suc show ?thesis by simp
  qed
qed

lemma loc_present:
  assumes "distinct (index d)" "j < length (index d)"
  shows "loc d (index d ! j) = Inr (row_at d j)"
proof -
  have "filter (\<lambda>i. index d ! i = index d ! j) [0..<length (index d)] = [j]"
  proof -
    have "filter (\<lambda>i. index d ! i = index d ! j) [0..<length (index d)]
            = filter (\<lambda>i. i = j) [0..<length (index d)]"
      using assms by (intro filter_cong) (auto simp: nth_eq_iff_index_eq)
    also have "\<dots> = [j]"
      using assms(2) by (rule filter_eq_upt)
    finally show ?thesis .
  qed
  then show ?thesis by (simp add: loc_def)
qed

lemma py_index_last: "0 < n \<Longrightarrow> py_index n (- 1) = Some (n - 1)"
  by (auto simp: py_index_def Let_def)

lemma py_index_nat: "k < n \<Longrightarrow> py_index n (int k) = Some k"
  by (simp add: py_index_def Let_def)

lemma py_index_pred: "0 < n \<Longrightarrow> py_index n (int n - 1) = Some (n - 1)"
  by (cases n) (simp_all add: py_index_def Let_def)

lemma get_row_at_absent:
  assumes "sorted_wrt (<) (index (df tr))" "t \<notin> set (index (df tr))"
  shows "get_row_at tr t method
           = bindE (get_indexer (index (df tr)) t method) (\<lambda>i. iloc_int (df tr) i)"
  using assms by (simp add: get_row_at_def loc_absent sorted_index_values)

lemma nearest_before:
  assumes srt: "sorted_wrt (<) (ts :: int list)" and ne: "ts \<noteq> []" and t: "t < hd ts"
  shows "nearest_indexer ts t = Inr 0"
proof -
  from ne obtain x xs where ts: "ts = x # xs" by (cases ts) auto
  with t have l: "pad_indexer ts t = - 1" and r: "backfill_indexer ts t = 0"
    by (simp_all add: pad_indexer_def backfill_indexer_def)
  have "hd ts \<le> last ts"
    using sorted_hd_le [OF strict_sorted_imp_sorted [OF srt], of "last ts"] ne by simp
  with t have "\<not> \<bar>ts ! (length ts - 1) - t\<bar> < \<bar>ts ! 0 - t\<bar>"
    using ne by (simp add: last_conv_nth hd_conv_nth)
  with l r ne py_index_last [of "length ts"] py_index_nat [of 0 "length ts"] show ?thesis
    by (simp add: nearest_indexer_def)
qed

lemma nearest_after:
  assumes srt: "sorted_wrt (<) (ts :: int list)" and ne: "ts \<noteq> []" and t: "last ts < t"
  shows "nearest_indexer ts t = Inr (int (length ts) - 1)"
proof -
  have all: "\<forall>x\<in>set ts. x < t"
    using sorted_le_last [OF strict_sorted_imp_sorted [OF srt]] t by fastforce
  then have tw: "takeWhile (\<lambda>x. x \<le> t) ts = ts" "takeWhile (\<lambda>x. x < t) ts = ts"
    by (auto simp: takeWhile_eq_all_conv)
  have l: "pad_indexer ts t = int (length ts) - 1"
    unfolding pad_indexer_def tw(1) by simp
  have r: "backfill_indexer ts t = - 1"
    unfolding backfill_indexer_def tw(2) by simp
  from ne have "0 < length ts" by simp
  from py_index_pred [OF this] py_index_last [OF this] show ?thesis
    unfolding nearest_indexer_def l r by simp
qed

lemmas time_eval = get_row_at_def loc_def get_indexer_def pad_indexer_def backfill_indexer_def
  nearest_indexer_def py_index_def iloc_int_def get_position_at_def interpolate_position_at_def
  get_end_time_def

text \<open>
  \<open>get_row_at\<close> has no range check. On a trajectory as the constructor leaves it, a
  timestamp before the first sample gets the first row from \<open>get_row_at(t, "nearest")\<close>
  and a timestamp after the last sample gets the last row. \<open>get_position_at\<close> raises the
  ValueError "outside the trajectory's time range" for every timestamp earlier than
  \<open>get_start_time()\<close> or later than \<open>get_end_time()\<close>, whatever the method; these are
  the first and the last timestamp cut to whole microseconds.
\<close>

lemma get_row_at_nearest_outside:
  assumes "sorted_wrt (<) (index (df tr))" and "index (df tr) \<noteq> []"
  shows "(t < hd (index (df tr)) \<longrightarrow> get_row_at tr t ''nearest'' = Inr (row_at (df tr) 0))
       \<and> (last (index (df tr)) < t \<longrightarrow>
            get_row_at tr t ''nearest'' = Inr (row_at (df tr) (length (index (df tr)) - 1)))
       \<and> (t < to_pydatetime (hd (index (df tr))) \<or> to_pydatetime (last (index (df tr))) < t \<longrightarrow>
            get_position_at ext tr t method
              = Inl (outside_range ext t (to_pydatetime (hd (index (df tr))))
                       (to_pydatetime (last (index (df tr))))))"
proof (intro conjI impI)
  let ?ts = "index (df tr)"
  note srt = strict_sorted_imp_sorted [OF assms(1)]
  {
    assume t: "t < hd ?ts"
    then have "t \<notin> set ?ts" using sorted_hd_le [OF srt, of t] by auto
    from get_row_at_absent [OF assms(1) this] nearest_before [OF assms t] assms(2)
    show "get_row_at tr t ''nearest'' = Inr (row_at (df tr) 0)"
      using py_index_nat [of 0 "length ?ts"]
      by (simp add: get_indexer_def bindE_def iloc_int_def)
  }
  {
    assume t: "last ?ts < t"
    then have "t \<notin> set ?ts" using sorted_le_last [OF srt, of t] by auto
    have "py_index (length ?ts) (int (length ?ts) - 1) = Some (length ?ts - 1)"
      using assms(2) by (intro py_index_pred) simp
    with get_row_at_absent [OF assms(1) \<open>t \<notin> set ?ts\<close>] nearest_after [OF assms t]
    show "get_row_at tr t ''nearest'' = Inr (row_at (df tr) (length ?ts - 1))"
      by (simp add: get_indexer_def bindE_def iloc_int_def)
  }
  {
    assume "t < to_pydatetime (hd ?ts) \<or> to_pydatetime (last ?ts) < t"
    with get_times_sorted [OF assms]
    show "get_position_at ext tr t method
            = Inl (outside_range ext t (to_pydatetime (hd ?ts)) (to_pydatetime (last ?ts)))"
      by (auto simp: get_position_at_def bindE_def)
  }
qed

text \<open>
  Claim C10, at a trajectory whose first timestamp is not a whole number of microseconds.
  \<open>precise_traj\<close> starts 1500 nanoseconds after the epoch, and 1000 nanoseconds after the
  epoch is earlier than its start. \<open>get_row_at\<close> returns the first row there, as the
  claim says. \<open>get_position_at\<close> does not reject the timestamp: its range check compares
  with \<open>get_start_time()\<close>, which is the start cut to 1000 nanoseconds, and it answers
  with a position, by the nearest row and by interpolation between the last row and the
  first. One nanosecond earlier it raises.
\<close>

theorem get_position_at_before_start:
  "index (df precise_traj) = [1500, 60000001500, 120000001500]
   \<and> 1000 < hd (index (df precise_traj))
   \<and> get_start_time precise_traj = Inr 1000
   \<and> get_row_at precise_traj 1000 ''nearest'' = Inr (row_at (df precise_traj) 0)
   \<and> get_position_at example_externals precise_traj 1000 ''nearest'' = Inr (Point 0 0)
   \<and> get_position_at example_externals precise_traj 1000 ''interpolated'' = Inr (Point 0 0)
   \<and> get_row_at precise_traj 999 ''nearest'' = Inr (row_at (df precise_traj) 0)
   \<and> get_position_at example_externals precise_traj 999 ''nearest''
       = Inl (outside_range example_externals 999 1000 120000001000)"
  by (simp add: frame_eval precise_traj_def time_eval)

section \<open>Interpolated positions\<close>


lemma bindE_Inl_iff: "bindE m f = Inl e \<longleftrightarrow> m = Inl e \<or> (\<exists>x. m = Inr x \<and> f x = Inl e)"
  by (cases m) (simp_all add: bindE_def)

lemma get_row_at_present:
  assumes "sorted_wrt (<) (index (df tr))" "j < length (index (df tr))"
  shows "get_row_at tr (index (df tr) ! j) method = Inr (row_at (df tr) j)"
  using loc_present [OF strict_sorted_distinct [OF assms(1)] assms(2)]
  by (simp add: get_row_at_def)

lemma get_row_at_no_zero_division: "get_row_at tr t method \<noteq> Inl ZeroDivisionError"
proof -
  have "loc (df tr) t \<noteq> Inl ZeroDivisionError"
    by (simp add: loc_def split: list.splits)
  moreover have "nearest_indexer xs t \<noteq> Inl ZeroDivisionError" for xs
    by (simp add: nearest_indexer_def Let_def split: option.splits)
  then have "get_indexer xs t method \<noteq> Inl ZeroDivisionError" for xs
    by (simp add: get_indexer_def)
  moreover have "iloc_int (df tr) i \<noteq> Inl ZeroDivisionError" for i
    by (simp add: iloc_int_def split: option.splits)
  ultimately show ?thesis
    by (auto simp: get_row_at_def Let_def bindE_Inl_iff split: sum.splits)
qed

lemma row_get_no_zero_division: "row_get r c \<noteq> Inl ZeroDivisionError"
  by (simp add: row_get_def split: option.splits)

lemma LineString_no_zero_division: "LineString p q \<noteq> Inl ZeroDivisionError"
  by (cases p; cases q) simp_all

lemma LineString_Point: "isinstance_Point p \<Longrightarrow> \<exists>line. LineString p p = Inr line"
  by (cases p) simp_all

text \<open>
  A line from a Point to itself has length zero: at the timestamp of a sample the second
  test of \<open>interpolate_position_at\<close> holds as well as the first, so the outcome there
  does not depend on how the library compares a Timedelta with the number 0.
\<close>

lemma line_length_same_point: "LineString p p = Inr line \<Longrightarrow> line_length line = 0"
  by (cases p) auto

text \<open>
  The round trip on a trajectory as the constructor leaves it: \<open>get_position_at\<close> with
  the method "interpolated" at the timestamp of a sample returns the position of that
  sample as it is stored, provided the timestamp is not later than \<open>get_end_time()\<close>,
  the last timestamp cut to whole microseconds. When the rows that bracket \<open>t\<close> carry
  the same timestamp or their positions are at distance zero,
  \<open>interpolate_position_at\<close> returns the position of the earlier row unchanged; and at
  no timestamp does it raise ZeroDivisionError.
\<close>

lemma interpolation_round_trip:
  assumes srt: "sorted_wrt (<) (index (df tr))"
    and g: "geometry (df tr) = Inr g" "length g = length (index (df tr))"
  shows "(j < length (index (df tr)) \<and> isinstance_Point (g ! j)
          \<and> index (df tr) ! j \<le> to_pydatetime (last (index (df tr))) \<longrightarrow>
            get_position_at ext tr (index (df tr) ! j) ''interpolated'' = Inr (g ! j))
       \<and> (j < length (index (df tr)) \<and> isinstance_Point (g ! j) \<longrightarrow>
            interpolate_position_at tr (index (df tr) ! j) = Inr (g ! j))
       \<and> (get_row_at tr t ''ffill'' = Inr prev_row \<and> get_row_at tr t ''bfill'' = Inr next_row
          \<and> row_get prev_row (get_geom_column_name tr) = Inr p0
          \<and> row_get next_row (get_geom_column_name tr) = Inr p1
          \<and> LineString p0 p1 = Inr line
          \<and> (fst next_row = fst prev_row \<or> line_length line = 0) \<longrightarrow>
            interpolate_position_at tr t = Inr p0)
       \<and> interpolate_position_at tr t' \<noteq> Inl ZeroDivisionError"
proof (intro conjI impI)
  have ip: "interpolate_position_at tr (index (df tr) ! j) = Inr (g ! j)"
    if j: "j < length (index (df tr)) \<and> isinstance_Point (g ! j)" for j
  proof -
    from g(1) have m: "map_of (cols (df tr)) (geometry_name (df tr)) = Some g"
      by (auto simp: geometry_def split: option.splits)
    then have rg: "row_get (row_at (df tr) j) (get_geom_column_name tr) = Inr (g ! j)"
      by (simp add: row_get_row_at_eq get_geom_column_name_def)
    from j LineString_Point obtain line where line: "LineString (g ! j) (g ! j) = Inr line" by blast
    from j have rows: "get_row_at tr (index (df tr) ! j) m = Inr (row_at (df tr) j)" for m
      by (intro get_row_at_present [OF srt]) simp
    show ?thesis
      by (simp add: interpolate_position_at_def rows rg line bindE_def Let_def)
  qed
  {
    assume j: "j < length (index (df tr)) \<and> isinstance_Point (g ! j)
      \<and> index (df tr) ! j \<le> to_pydatetime (last (index (df tr)))"
    let ?t = "index (df tr) ! j"
    from j have ne: "index (df tr) \<noteq> []" by auto
    from j have mem: "?t \<in> set (index (df tr))" by simp
    note s = strict_sorted_imp_sorted [OF srt]
    from sorted_hd_le [OF s mem] to_pydatetime_le [of "hd (index (df tr))"] j
    have range: "\<not> (?t < to_pydatetime (hd (index (df tr)))
                   \<or> ?t > to_pydatetime (last (index (df tr))))" by simp
    from ip [of j] j get_times_sorted [OF srt ne] range
    show "get_position_at ext tr ?t ''interpolated'' = Inr (g ! j)"
      by (simp add: get_position_at_def bindE_def)
  }
  {
    assume "j < length (index (df tr)) \<and> isinstance_Point (g ! j)"
    then show "interpolate_position_at tr (index (df tr) ! j) = Inr (g ! j)" by (rule ip)
  }
  {
    assume "get_row_at tr t ''ffill'' = Inr prev_row \<and> get_row_at tr t ''bfill'' = Inr next_row
          \<and> row_get prev_row (get_geom_column_name tr) = Inr p0
          \<and> row_get next_row (get_geom_column_name tr) = Inr p1
          \<and> LineString p0 p1 = Inr line
          \<and> (fst next_row = fst prev_row \<or> line_length line = 0)"
    then show "interpolate_position_at tr t = Inr p0"
      by (auto simp: interpolate_position_at_def bindE_def Let_def)
  }
  show "interpolate_position_at tr t' \<noteq> Inl ZeroDivisionError"
    using get_row_at_no_zero_division row_get_no_zero_division LineString_no_zero_division
    by (auto simp: interpolate_position_at_def Let_def bindE_Inl_iff py_truediv_def)
qed

text \<open>
  Claim C6, at a trajectory whose last timestamp is not a whole number of microseconds.
  The last sample of \<open>precise_traj\<close> is at 120000001500 nanoseconds, with the position
  (3, 4). \<open>interpolate_position_at\<close> returns that position at that timestamp, but
  \<open>get_position_at\<close> does not get so far: its range check compares the timestamp with
  \<open>get_end_time()\<close>, the end cut to whole microseconds, finds it later and raises the
  ValueError "outside the trajectory's time range". At the timestamp of the second sample
  the position of the sample is returned.
\<close>

theorem get_position_at_last_sample:
  "index (df precise_traj) ! 2 = 120000001500
   \<and> geometry (df precise_traj) = Inr [Point 0 0, Point 3 0, Point 3 4]
   \<and> get_end_time precise_traj = Inr 120000001000
   \<and> get_position_at example_externals precise_traj 120000001500 ''interpolated''
       = Inl (outside_range example_externals 120000001500 1000 120000001000)
   \<and> interpolate_position_at precise_traj 120000001500 = Inr (Point 3 4)
   \<and> get_position_at example_externals precise_traj 60000001500 ''interpolated''
       = Inr (Point 3 0)"
  by (simp add: frame_eval precise_traj_def time_eval)

end
